theory Spec2Isabelle
  imports Complex_Main "HOL-Library.Sublist"
begin

section \<open>Python strings\<close>

text \<open>
  A Python \<open>str\<close> is modelled as a \<open>string\<close> whose characters are code points below
  256.  Substring search, \<open>str.replace\<close>, \<open>str.strip\<close> and \<open>str.upper\<close> are written
  out; \<open>upper\<close> is modelled on the ASCII letters, which is where the keyword tests of
  the classifiers look.
\<close>

text \<open>\<open>sub in s\<close>: some suffix of \<open>s\<close> starts with \<open>sub\<close>.\<close>

fun contains :: "string \<Rightarrow> string \<Rightarrow> bool" where
  "contains sub [] = (sub = [])"
| "contains sub (c # cs) = (prefix sub (c # cs) \<or> contains sub cs)"

definition upper_char :: "char \<Rightarrow> char" where
  "upper_char c =
     (case map_of (zip ''abcdefghijklmnopqrstuvwxyz'' ''ABCDEFGHIJKLMNOPQRSTUVWXYZ'') c of
        Some u \<Rightarrow> u
      | None \<Rightarrow> c)"

definition lower_char :: "char \<Rightarrow> char" where
  "lower_char c =
     (case map_of (zip ''ABCDEFGHIJKLMNOPQRSTUVWXYZ'' ''abcdefghijklmnopqrstuvwxyz'') c of
        Some l \<Rightarrow> l
      | None \<Rightarrow> c)"

definition upper :: "string \<Rightarrow> string" where
  "upper s = map upper_char s"

text \<open>
  The characters \<open>str.isspace\<close> accepts among the code points below 256: tab to carriage
  return, the four separators 0x1C to 0x1F, the space, NEL and the no-break space.
\<close>

definition is_space :: "char \<Rightarrow> bool" where
  "is_space c \<longleftrightarrow>
     c \<in> set [CHR 0x09, CHR 0x0A, CHR 0x0B, CHR 0x0C, CHR 0x0D,
               CHR 0x1C, CHR 0x1D, CHR 0x1E, CHR 0x1F, CHR 0x20, CHR 0x85, CHR 0xA0]"

definition strip :: "string \<Rightarrow> string" where
  "strip s = rev (dropWhile is_space (rev (dropWhile is_space s)))"

text \<open>
  \<open>s.replace(old, new)\<close>: the occurrences of \<open>old\<close> are replaced from the left and do
  not overlap; an empty \<open>old\<close> matches before every character and at the end.
\<close>

function replace :: "string \<Rightarrow> string \<Rightarrow> string \<Rightarrow> string" where
  "replace old new s =
     (if old = [] then new @ concat (map (\<lambda>c. c # new) s)
      else if s = [] then []
      else if prefix old s then new @ replace old new (drop (length old) s)
      else hd s # replace old new (tl s))"
  by pat_completeness auto
termination
  by (relation "measure (\<lambda>(old, new, s). length s)") auto

declare replace.simps [simp del]

section \<open>Python floats\<close>

text \<open>
  A float is the rational number it denotes, one of the two infinities, or NaN.  The
  comparisons are those of IEEE 754: every comparison with NaN is false.  \<open>Finite q\<close>
  read from a decimal numeral stands for the double nearest to \<open>q\<close>; the rounding step
  (and the overflow of a numeral beyond the double range to an infinity) is not
  modelled, nor is the rounding of an addition.  Negative zero is \<open>Finite 0\<close>.
\<close>

datatype pyfloat = Finite rat | PosInf | NegInf | NaN

fun pf_less :: "pyfloat \<Rightarrow> pyfloat \<Rightarrow> bool" where
  "pf_less (Finite a) (Finite b) = (a < b)"
| "pf_less (Finite a) PosInf = True"
| "pf_less NegInf (Finite b) = True"
| "pf_less NegInf PosInf = True"
| "pf_less _ _ = False"

fun pf_eq :: "pyfloat \<Rightarrow> pyfloat \<Rightarrow> bool" where
  "pf_eq NaN _ = False"
| "pf_eq _ NaN = False"
| "pf_eq a b = (a = b)"

definition pf_le :: "pyfloat \<Rightarrow> pyfloat \<Rightarrow> bool" where
  "pf_le a b \<longleftrightarrow> pf_less a b \<or> pf_eq a b"

fun pf_add :: "pyfloat \<Rightarrow> pyfloat \<Rightarrow> pyfloat" where
  "pf_add (Finite a) (Finite b) = Finite (a + b)"
| "pf_add NaN _ = NaN"
| "pf_add _ NaN = NaN"
| "pf_add PosInf NegInf = NaN"
| "pf_add NegInf PosInf = NaN"
| "pf_add PosInf _ = PosInf"
| "pf_add _ PosInf = PosInf"
| "pf_add NegInf _ = NegInf"
| "pf_add _ NegInf = NegInf"

text \<open>\<open>sum(...)\<close> over floats starts from the integer 0 and adds from the left.\<close>

definition py_sum :: "pyfloat list \<Rightarrow> pyfloat" where
  "py_sum xs = foldl pf_add (Finite 0) xs"

datatype error = ValueError | KeyError string | TypeError | AttributeError

subsection \<open>\<open>float(str)\<close>\<close>

definition is_digit :: "char \<Rightarrow> bool" where
  "is_digit c \<longleftrightarrow> c \<in> set ''0123456789''"

definition digit_val :: "char \<Rightarrow> nat" where
  "digit_val c = of_char c - 48"

definition digits_value :: "string \<Rightarrow> nat" where
  "digits_value ds = foldl (\<lambda>n c. 10 * n + digit_val c) 0 ds"

text \<open>
  Underscores are allowed between two digits only.  The scan keeps the previous
  character, drops the underscores and fails on a misplaced one; it runs only when the
  string has an underscore.
\<close>

fun drop_underscores :: "char \<Rightarrow> string \<Rightarrow> string option" where
  "drop_underscores prev [] = (if prev = CHR ''_'' then None else Some [])"
| "drop_underscores prev (c # cs) =
     (if c = CHR ''_'' then
        (if is_digit prev then drop_underscores c cs else None)
      else if prev = CHR ''_'' \<and> \<not> is_digit c then None
      else map_option ((#) c) (drop_underscores c cs))"

fun sign_split :: "string \<Rightarrow> bool \<times> string" where
  "sign_split [] = (False, [])"
| "sign_split (c # cs) =
     (if c = CHR ''-'' then (True, cs)
      else if c = CHR ''+'' then (False, cs)
      else (False, c # cs))"

definition pow10 :: "int \<Rightarrow> rat" where
  "pow10 e = (if 0 \<le> e then 10 ^ nat e else 1 / 10 ^ nat (- e))"

text \<open>The exponent part: nothing, or \<open>e\<close>/\<open>E\<close>, an optional sign and at least one digit.\<close>

definition parse_exponent :: "string \<Rightarrow> int option" where
  "parse_exponent r =
     (case r of
        [] \<Rightarrow> Some 0
      | c # cs \<Rightarrow>
          if c = CHR ''e'' \<or> c = CHR ''E'' then
            (case sign_split cs of
               (neg, ds) \<Rightarrow>
                 if ds \<noteq> [] \<and> list_all is_digit ds then
                   Some (if neg then - int (digits_value ds) else int (digits_value ds))
                 else None)
          else None)"

text \<open>
  The unsigned decimal numeral: digits, an optional point and digits, with a digit on
  at least one side of the point, then the exponent part.
\<close>

definition parse_number :: "string \<Rightarrow> rat option" where
  "parse_number s =
     (let ip = takeWhile is_digit s;
          r1 = dropWhile is_digit s;
          fp = (case r1 of [] \<Rightarrow> [] | c # r \<Rightarrow> if c = CHR ''.'' then takeWhile is_digit r else []);
          r2 = (case r1 of [] \<Rightarrow> [] | c # r \<Rightarrow> if c = CHR ''.'' then dropWhile is_digit r else r1)
      in if ip = [] \<and> fp = [] then None
         else (case parse_exponent r2 of
                 None \<Rightarrow> None
               | Some e \<Rightarrow>
                   Some (of_nat (digits_value (ip @ fp)) * pow10 (e - int (length fp)))))"

definition parse_inf_or_nan :: "string \<Rightarrow> bool \<Rightarrow> pyfloat option" where
  "parse_inf_or_nan body neg =
     (let l = map lower_char body
      in if l = ''inf'' \<or> l = ''infinity'' then Some (if neg then NegInf else PosInf)
         else if l = ''nan'' then Some NaN
         else None)"

definition float_inner :: "string \<Rightarrow> error + pyfloat" where
  "float_inner s =
     (case sign_split (strip s) of
        (neg, body) \<Rightarrow>
          (case parse_number body of
             Some q \<Rightarrow> Inr (Finite (if neg then - q else q))
           | None \<Rightarrow>
               (case parse_inf_or_nan body neg of
                  Some v \<Rightarrow> Inr v
                | None \<Rightarrow> Inl ValueError)))"

definition float_py :: "string \<Rightarrow> error + pyfloat" where
  "float_py s =
     (if CHR ''_'' \<in> set s then
        (case drop_underscores (CHR 0x00) s of
           None \<Rightarrow> Inl ValueError
         | Some t \<Rightarrow> float_inner t)
      else float_inner s)"

section \<open>The record model\<close>

record position =
  title :: string
  tenure_code :: string
  empl_class :: string
  present_fte :: pyfloat
  proposed_fte :: pyfloat
  present_salary :: pyfloat
  proposed_salary :: pyfloat

text \<open>
  \<open>max(xs, key=k)\<close> keeps the first item and replaces it only by an item whose key is
  strictly greater, so the first maximal item wins; on an empty list it raises.
\<close>

fun max_loop :: "('a \<Rightarrow> pyfloat) \<Rightarrow> 'a \<Rightarrow> 'a list \<Rightarrow> 'a" where
  "max_loop key best [] = best"
| "max_loop key best (x # xs) =
     max_loop key (if pf_less (key best) (key x) then x else best) xs"

record faculty_member =
  name :: string
  department :: "string option"
  positions :: "position list"

text \<open>
  The table pipeline.  A position counts when \<open>present_salary > 0\<close>; among those the
  first one of greatest salary is the primary one, and without any the first position.
\<close>

definition primary_position :: "faculty_member \<Rightarrow> position option" where
  "primary_position m =
     (if positions m = [] then None
      else (case filter (\<lambda>p. pf_less (Finite 0) (present_salary p)) (positions m) of
              p # ps \<Rightarrow> Some (max_loop present_salary p ps)
            | [] \<Rightarrow> Some (hd (positions m))))"

definition total_present_salary :: "faculty_member \<Rightarrow> pyfloat" where
  "total_present_salary m = py_sum (map present_salary (positions m))"

definition total_proposed_salary :: "faculty_member \<Rightarrow> pyfloat" where
  "total_proposed_salary m = py_sum (map proposed_salary (positions m))"

definition total_present_fte :: "faculty_member \<Rightarrow> pyfloat" where
  "total_present_fte m = py_sum (map present_fte (positions m))"

definition faculty_type :: "faculty_member \<Rightarrow> string" where
  "faculty_type m =
     (case primary_position m of
        None \<Rightarrow> ''unknown''
      | Some primary \<Rightarrow>
          (let t = upper (title primary) in
           if list_ex (\<lambda>kw. contains kw t)
                [''TCH '', ''TEACHING'', ''SR. LECTURER'', ''SR LECTURER'', ''LECTURER'']
           then ''teaching''
           else if contains ''RES '' t \<and>
                   (contains ''PROF'' t \<or> contains ''ASSOC'' t \<or> contains ''ASST'' t)
           then ''research''
           else if contains ''CLIN'' t \<or> contains ''CLINICAL'' t then ''clinical''
           else if contains ''PROF'' t then ''tenure_track''
           else if contains ''INSTR'' t then ''teaching''
           else ''other''))"

definition rank :: "faculty_member \<Rightarrow> string" where
  "rank m =
     (case primary_position m of
        None \<Rightarrow> ''unknown''
      | Some primary \<Rightarrow>
          (let t = upper (title primary) in
           if contains ''ASST PROF'' t \<or> contains ''ASSISTANT PROF'' t then ''assistant''
           else if contains ''ASSOC PROF'' t \<or> contains ''ASSOCIATE PROF'' t then ''associate''
           else if contains ''PROF'' t then ''full''
           else if contains ''SR'' t \<and> contains ''LECTURER'' t then ''senior_lecturer''
           else if contains ''LECTURER'' t then ''lecturer''
           else if contains ''INSTR'' t then ''instructor''
           else ''other''))"

definition is_joint_appointment :: "faculty_member \<Rightarrow> bool" where
  "is_joint_appointment m \<longleftrightarrow>
     pf_less (total_present_fte m) (Finite (9 / 10)) \<or> pf_eq (total_present_salary m) (Finite 0)"

definition is_full_time_here :: "faculty_member \<Rightarrow> bool" where
  "is_full_time_here m \<longleftrightarrow> pf_le (Finite (9 / 10)) (total_present_fte m)"

text \<open>
  The flattened-text pipeline has its own \<open>FacultyMember\<close>: no department, and the four
  totals are stored fields that \<open>__post_init__\<close> computes from the positions.
\<close>

record faculty_member_docx =
  name_docx :: string
  positions_docx :: "position list"
  total_present_fte_docx :: pyfloat
  total_proposed_fte_docx :: pyfloat
  total_present_salary_docx :: pyfloat
  total_proposed_salary_docx :: pyfloat

definition FacultyMember_docx :: "string \<Rightarrow> position list \<Rightarrow> faculty_member_docx" where
  "FacultyMember_docx n ps =
     \<lparr>name_docx = n, positions_docx = ps,
      total_present_fte_docx = py_sum (map present_fte ps),
      total_proposed_fte_docx = py_sum (map proposed_fte ps),
      total_present_salary_docx = py_sum (map present_salary ps),
      total_proposed_salary_docx = py_sum (map proposed_salary ps)\<rparr>"

definition primary_position_docx :: "faculty_member_docx \<Rightarrow> position option" where
  "primary_position_docx m =
     (case positions_docx m of
        [] \<Rightarrow> None
      | p # ps \<Rightarrow> Some (max_loop present_salary p ps))"

definition faculty_type_docx :: "faculty_member_docx \<Rightarrow> string" where
  "faculty_type_docx m =
     (case primary_position_docx m of
        None \<Rightarrow> ''unknown''
      | Some primary \<Rightarrow>
          (let t = upper (title primary) in
           if list_ex (\<lambda>kw. contains kw t) [''TCH '', ''TEACHING'', ''LECTURER'', ''INSTR '']
           then ''teaching''
           else if contains ''RES '' t \<and> contains ''PROF'' t then ''research_only''
           else if contains ''CLIN'' t \<or> contains ''CLINICAL'' t then ''clinical''
           else if contains ''PROF'' t then ''tenure_track''
           else ''other''))"

definition rank_docx :: "faculty_member_docx \<Rightarrow> string" where
  "rank_docx m =
     (case primary_position_docx m of
        None \<Rightarrow> ''unknown''
      | Some primary \<Rightarrow>
          (let t = upper (title primary) in
           if contains ''ASST PROF'' t \<or> contains ''ASSISTANT'' t then ''assistant''
           else if contains ''ASSOC PROF'' t \<or> contains ''ASSOCIATE'' t then ''associate''
           else if contains ''PROF'' t then ''full''
           else if contains ''LECTURER'' t then
             (if contains ''SR'' t then ''senior_lecturer'' else ''lecturer'')
           else if contains ''INSTR'' t then ''instructor''
           else ''other''))"

definition is_full_time_docx :: "faculty_member_docx \<Rightarrow> bool" where
  "is_full_time_docx m \<longleftrightarrow> pf_le (Finite (9 / 10)) (total_present_fte_docx m)"

section \<open>Parsing the numeric fields\<close>

text \<open>
  \<open>try: float(cleaned)  except ValueError: 0.0\<close>: a \<open>ValueError\<close> becomes the value 0.0,
  any other exception would pass through.  The table pipeline strips the cleaned text,
  the flattened-text pipeline does not.
\<close>

definition parse_salary :: "string \<Rightarrow> error + pyfloat" where
  "parse_salary salary_str =
     (let cleaned = strip (replace '','' [] (replace ''$'' [] salary_str)) in
      case float_py cleaned of
        Inr v \<Rightarrow> Inr v
      | Inl e \<Rightarrow> if e = ValueError then Inr (Finite 0) else Inl e)"

definition parse_salary_docx :: "string \<Rightarrow> error + pyfloat" where
  "parse_salary_docx salary_str =
     (let cleaned = replace '','' [] (replace ''$'' [] salary_str) in
      case float_py cleaned of
        Inr v \<Rightarrow> Inr v
      | Inl e \<Rightarrow> if e = ValueError then Inr (Finite 0) else Inl e)"

definition parse_fte :: "string \<Rightarrow> error + pyfloat" where
  "parse_fte fte_str =
     (case float_py (strip fte_str) of
        Inr v \<Rightarrow> Inr v
      | Inl e \<Rightarrow> if e = ValueError then Inr (Finite 0) else Inl e)"

section \<open>The table walker and its assembler\<close>

text \<open>
  Exceptions thread through the calls: a failing step stops the run with its error.
\<close>

definition bind_err :: "error + 'a \<Rightarrow> ('a \<Rightarrow> error + 'b) \<Rightarrow> error + 'b" where
  "bind_err r f = (case r of Inl e \<Rightarrow> Inl e | Inr v \<Rightarrow> f v)"

text \<open>
  One entry of \<open>self.departments\<close>: the dictionary \<open>{"name": ..., "faculty": [...]}\<close>.
  The keys of \<open>self.departments\<close> and the department of a member are values of
  \<open>self.current_dept_id\<close>, which is \<open>None\<close> or a string.
\<close>

record dept_entry =
  dept_name :: "string option"
  faculty :: "faculty_member list"

record parser_state =
  departments :: "string option \<rightharpoonup> dept_entry"
  current_dept_id :: "string option"
  current_dept_name :: "string option"
  in_table :: bool
  in_thead :: bool
  in_row :: bool
  in_cell :: bool
  current_row :: "string list"
  current_cell_text :: string
  college :: "string option"

definition GrayBookHTMLParser_init :: parser_state where
  "GrayBookHTMLParser_init =
     \<lparr>departments = Map.empty, current_dept_id = None, current_dept_name = None,
      in_table = False, in_thead = False, in_row = False, in_cell = False,
      current_row = [], current_cell_text = [], college = None\<rparr>"

text \<open>
  The \<open>Position\<close> that \<open>_process_row\<close> builds from a row of at least eight cells; both
  branches of \<open>_process_row\<close> build the same one.
\<close>

definition row_position :: "string list \<Rightarrow> error + position" where
  "row_position row =
     bind_err (parse_fte (row ! 4)) (\<lambda>present_fte'.
     bind_err (parse_fte (row ! 5)) (\<lambda>proposed_fte'.
     bind_err (parse_salary (row ! 6)) (\<lambda>present_salary'.
     bind_err (parse_salary (row ! 7)) (\<lambda>proposed_salary'.
       Inr \<lparr>title = row ! 1, tenure_code = row ! 2, empl_class = row ! 3,
            present_fte = present_fte', proposed_fte = proposed_fte',
            present_salary = present_salary', proposed_salary = proposed_salary'\<rparr>))))"

definition process_row :: "string list \<Rightarrow> parser_state \<Rightarrow> error + parser_state" where
  "process_row row s =
     (if length row < 8 then Inr s
      else if contains ''Employee Total'' (row ! 1) then Inr s
      else
        bind_err (row_position row) (\<lambda>pos.
          let nm = row ! 0;
              k = current_dept_id s;
              dept = (case departments s k of
                        None \<Rightarrow> \<lparr>dept_name = k, faculty = []\<rparr>
                      | Some d \<Rightarrow> d);
              fac = faculty dept;
              fac' = (if fac \<noteq> [] \<and> (nm = [] \<or> nm = name (last fac))
                      then butlast fac @
                           [(last fac)\<lparr>positions := positions (last fac) @ [pos]\<rparr>]
                      else fac @ [\<lparr>name = nm, department = k, positions = [pos]\<rparr>])
          in Inr (s\<lparr>departments := (departments s)(k \<mapsto> dept\<lparr>faculty := fac'\<rparr>)\<rparr>)))"

text \<open>\<open>dict(attrs)\<close>: of two attributes of the same name the later one wins.\<close>

definition handle_starttag ::
    "string \<Rightarrow> (string \<times> string option) list \<Rightarrow> parser_state \<Rightarrow> parser_state" where
  "handle_starttag tag attrs s0 =
     (let attrs_dict = map_of (rev attrs);
          s1 = (if tag = ''h2'' then s0\<lparr>college := None\<rparr> else s0);
          s2 = (if tag = ''h3'' then
                  (case attrs_dict ''id'' of
                     Some v \<Rightarrow> s1\<lparr>current_dept_id := v\<rparr>
                   | None \<Rightarrow> s1)
                else s1);
          s3 = (if tag = ''table'' then s2\<lparr>in_table := True\<rparr> else s2);
          s4 = (if tag = ''thead'' then s3\<lparr>in_thead := True\<rparr> else s3);
          s5 = (if tag = ''tr'' \<and> in_table s4 \<and> \<not> in_thead s4
                then s4\<lparr>in_row := True, current_row := []\<rparr> else s4);
          s6 = (if (tag = ''td'' \<or> tag = ''th'') \<and> in_row s5
                then s5\<lparr>in_cell := True, current_cell_text := []\<rparr> else s5)
      in s6)"

text \<open>The truth value of \<open>self.current_dept_id\<close>: \<open>None\<close> and the empty string are false.\<close>

definition truthy_id :: "string option \<Rightarrow> bool" where
  "truthy_id k = (case k of None \<Rightarrow> False | Some d \<Rightarrow> d \<noteq> [])"

definition handle_endtag :: "string \<Rightarrow> parser_state \<Rightarrow> error + parser_state" where
  "handle_endtag tag s0 =
     (let s1 = (if tag = ''thead'' then s0\<lparr>in_thead := False\<rparr> else s0);
          s2 = (if tag = ''table'' then s1\<lparr>in_table := False\<rparr> else s1);
          s3 = (if (tag = ''td'' \<or> tag = ''th'') \<and> in_cell s2
                then s2\<lparr>in_cell := False,
                        current_row := current_row s2 @ [strip (current_cell_text s2)]\<rparr>
                else s2)
      in if tag = ''tr'' \<and> in_row s3 then
           (let s4 = s3\<lparr>in_row := False\<rparr>
            in if current_row s4 \<noteq> [] \<and> truthy_id (current_dept_id s4)
               then process_row (current_row s4) s4
               else Inr s4)
         else Inr s3)"

definition handle_data :: "string \<Rightarrow> parser_state \<Rightarrow> parser_state" where
  "handle_data data s =
     (if in_cell s then s\<lparr>current_cell_text := current_cell_text s @ data\<rparr> else s)"

text \<open>
  \<open>parser.feed\<close> tokenises the document and calls the three handlers in document order.
  The tokeniser belongs to the library; the run is modelled over the calls it makes.
\<close>

datatype event =
    StartTag string "(string \<times> string option) list"
  | EndTag string
  | Data string

fun handle_event :: "event \<Rightarrow> parser_state \<Rightarrow> error + parser_state" where
  "handle_event (StartTag tag attrs) s = Inr (handle_starttag tag attrs s)"
| "handle_event (EndTag tag) s = handle_endtag tag s"
| "handle_event (Data data) s = Inr (handle_data data s)"

fun feed :: "event list \<Rightarrow> parser_state \<Rightarrow> error + parser_state" where
  "feed [] s = Inr s"
| "feed (e # es) s = bind_err (handle_event e s) (feed es)"

definition parse_graybook_html :: "event list \<Rightarrow> error + (string option \<rightharpoonup> dept_entry)" where
  "parse_graybook_html html_events =
     bind_err (feed html_events GrayBookHTMLParser_init) (\<lambda>parser. Inr (departments parser))"

section \<open>The flattened-text assembler\<close>

text \<open>
  \<open>parse_faculty_simple\<close> walks the matches of its entry pattern.  The regular-expression
  engine is not modelled: a match is the tuple of its seven groups, and the function that
  finds the matches of a text is a parameter.
\<close>

record entry_match =
  group1 :: string
  group2 :: string
  group3 :: string
  group4 :: string
  group5 :: string
  group6 :: string
  group7 :: string

record simple_state =
  faculty_docx :: "faculty_member_docx list"
  current_name :: "string option"
  current_positions :: "position list"

definition simple_step :: "entry_match \<Rightarrow> simple_state \<Rightarrow> error + simple_state" where
  "simple_step m st =
     (let nm = strip (group1 m); ttl = strip (group2 m); tenure = group3 m in
      bind_err (float_py (group4 m)) (\<lambda>present_fte'.
      bind_err (float_py (group5 m)) (\<lambda>proposed_fte'.
      bind_err (parse_salary_docx (group6 m)) (\<lambda>present_salary'.
      bind_err (parse_salary_docx (group7 m)) (\<lambda>proposed_salary'.
        if contains ''Siebel School'' nm \<or> contains ''Engineering'' nm \<or>
           contains ''Board of Trustees'' nm
        then Inr st
        else
          (let st1 = (case current_name st of
                        None \<Rightarrow> st
                      | Some cn \<Rightarrow>
                          if cn \<noteq> [] \<and> nm \<noteq> cn then
                            st\<lparr>faculty_docx :=
                                 (if current_positions st \<noteq> []
                                  then faculty_docx st @
                                       [FacultyMember_docx cn (current_positions st)]
                                  else faculty_docx st),
                               current_positions := []\<rparr>
                          else st)
           in Inr (st1\<lparr>current_name := Some nm,
                        current_positions := current_positions st1 @
                          [\<lparr>title = ttl, tenure_code = tenure, empl_class = [],
                            present_fte = present_fte', proposed_fte = proposed_fte',
                            present_salary = present_salary',
                            proposed_salary = proposed_salary'\<rparr>]\<rparr>)))))))"

fun simple_loop :: "entry_match list \<Rightarrow> simple_state \<Rightarrow> error + simple_state" where
  "simple_loop [] st = Inr st"
| "simple_loop (m # ms) st = bind_err (simple_step m st) (simple_loop ms)"

definition parse_faculty_simple ::
    "(string \<Rightarrow> entry_match list) \<Rightarrow> string \<Rightarrow> error + faculty_member_docx list" where
  "parse_faculty_simple entry_finditer text =
     bind_err (simple_loop (entry_finditer text)
                 \<lparr>faculty_docx = [], current_name = None, current_positions = []\<rparr>)
       (\<lambda>st. Inr (case current_name st of
                    None \<Rightarrow> faculty_docx st
                  | Some cn \<Rightarrow>
                      if cn \<noteq> [] \<and> current_positions st \<noteq> []
                      then faculty_docx st @ [FacultyMember_docx cn (current_positions st)]
                      else faculty_docx st))"

subsection \<open>Cutting the department section out of the text\<close>

text \<open>
  \<open>re.finditer(re.escape(pattern), text)\<close>: the start indices of the occurrences of the
  literal pattern, from the left, without overlap.  \<open>skip\<close> counts the characters of the
  last match that are still to be passed.
\<close>

fun occurrences :: "string \<Rightarrow> nat \<Rightarrow> nat \<Rightarrow> string \<Rightarrow> nat list" where
  "occurrences pat skip i [] = (if skip = 0 \<and> pat = [] then [i] else [])"
| "occurrences pat skip i (c # cs) =
     (if 0 < skip then occurrences pat (skip - 1) (i + 1) cs
      else if prefix pat (c # cs) then i # occurrences pat (length pat - 1) (i + 1) cs
      else occurrences pat 0 (i + 1) cs)"

text \<open>
  The page-break pattern \<open>August \d+, 2025 Board of Trustees\<close> matched at the head of
  a text, and the index of its first match in a text.
\<close>

definition page_break_here :: "string \<Rightarrow> bool" where
  "page_break_here s \<longleftrightarrow>
     prefix ''August '' s \<and>
     takeWhile is_digit (drop 7 s) \<noteq> [] \<and>
     prefix '', 2025 Board of Trustees'' (dropWhile is_digit (drop 7 s))"

fun search_page_break :: "nat \<Rightarrow> string \<Rightarrow> nat option" where
  "search_page_break i [] = None"
| "search_page_break i (c # cs) =
     (if page_break_here (c # cs) then Some i else search_page_break (i + 1) cs)"

text \<open>The slice \<open>text[a:b]\<close> for indices that are not negative.\<close>

definition slice :: "string \<Rightarrow> nat \<Rightarrow> nat \<Rightarrow> string" where
  "slice text a b = take (b - a) (drop a text)"

fun join :: "string \<Rightarrow> string list \<Rightarrow> string" where
  "join sep [] = []"
| "join sep [x] = x"
| "join sep (x # y # ys) = x @ sep @ join sep (y # ys)"

definition extract_department_section :: "string \<Rightarrow> string \<Rightarrow> string \<Rightarrow> error + string" where
  "extract_department_section full_text dept_code dept_name' =
     (let pattern = dept_code @ '' - '' @ dept_name';
          matches = occurrences pattern 0 0 full_text
      in if matches = [] then Inl ValueError
         else Inr (join '' ''
                (map (\<lambda>start.
                        let remaining = drop (start + length pattern) full_text;
                            end' = (case search_page_break 0 remaining of
                                      Some pb \<Rightarrow> start + length pattern + pb
                                    | None \<Rightarrow> start + 10000)
                        in slice full_text start end')
                     matches)))"

section \<open>The intermediate artifact and the two entry points\<close>

text \<open>
  The artifact is a JSON document.  An object is the list of its items in the order in
  which they are written; reading the file back gives the same value.
\<close>

datatype json =
    JNull
  | JBool bool
  | JInt int
  | JNum pyfloat
  | JStr string
  | JArr "json list"
  | JObj "(string \<times> json) list"

definition position_asdict :: "position \<Rightarrow> json" where
  "position_asdict p =
     JObj [(''title'', JStr (title p)), (''tenure_code'', JStr (tenure_code p)),
           (''empl_class'', JStr (empl_class p)), (''present_fte'', JNum (present_fte p)),
           (''proposed_fte'', JNum (proposed_fte p)),
           (''present_salary'', JNum (present_salary p)),
           (''proposed_salary'', JNum (proposed_salary p))]"

text \<open>The record that the table entry point writes for one member.\<close>

definition faculty_record :: "faculty_member \<Rightarrow> json" where
  "faculty_record f =
     JObj [(''name'', JStr (name f)),
           (''faculty_type'', JStr (faculty_type f)),
           (''rank'', JStr (rank f)),
           (''is_full_time_here'', JBool (is_full_time_here f)),
           (''is_joint_appointment'', JBool (is_joint_appointment f)),
           (''total_present_salary'', JNum (total_present_salary f)),
           (''total_proposed_salary'', JNum (total_proposed_salary f)),
           (''total_present_fte'', JNum (total_present_fte f)),
           (''positions'', JArr (map position_asdict (positions f)))]"

text \<open>The record that the flattened-text entry point writes for one member.\<close>

definition faculty_record_docx :: "faculty_member_docx \<Rightarrow> json" where
  "faculty_record_docx f =
     JObj [(''name'', JStr (name_docx f)),
           (''faculty_type'', JStr (faculty_type_docx f)),
           (''rank'', JStr (rank_docx f)),
           (''is_full_time'', JBool (is_full_time_docx f)),
           (''total_present_salary'', JNum (total_present_salary_docx f)),
           (''total_proposed_salary'', JNum (total_proposed_salary_docx f)),
           (''total_present_fte'', JNum (total_present_fte_docx f)),
           (''positions'', JArr (map position_asdict (positions_docx f)))]"

text \<open>
  \<open>main\<close> of the flattened-text entry point, from the text that was read out of the
  document to the artifact it writes.  Reading the file and the progress messages are
  left out; an error that no handler catches ends the run.
\<close>

definition main_docx :: "(string \<Rightarrow> entry_match list) \<Rightarrow> string \<Rightarrow> error + json" where
  "main_docx entry_finditer full_text =
     bind_err (extract_department_section full_text ''434'' ''Siebel School Comp & Data Sci'')
       (\<lambda>cs_text.
     bind_err (parse_faculty_simple entry_finditer cs_text)
       (\<lambda>faculty'.
          Inr (JObj [(''department'', JStr ''Siebel School of Computing & Data Science''),
                     (''faculty'', JArr (map faculty_record_docx faculty'))])))"

text \<open>
  \<open>main\<close> of the table entry point.  \<open>dept_names\<close> holds the items of the dictionary that
  \<open>extract_department_names\<close> returns, \<open>html_events\<close> the calls that the tokeniser makes
  on the document.  The result is \<open>None\<close> when \<open>main\<close> returns before it writes the
  artifact.
\<close>

definition main_html ::
    "(string \<times> string) list \<Rightarrow> event list \<Rightarrow> error + json option" where
  "main_html dept_names html_events =
     (case find (\<lambda>(dept_id, nm). contains ''Siebel School'' nm \<or> contains ''434 -'' nm)
             dept_names of
        None \<Rightarrow> Inr None
      | Some (cs_dept_id, nm) \<Rightarrow>
          if cs_dept_id = [] then Inr None
          else
            bind_err (parse_graybook_html html_events) (\<lambda>departments'.
              case departments' (Some cs_dept_id) of
                None \<Rightarrow> Inr None
              | Some cs_dept \<Rightarrow>
                  (let faculty_only =
                         filter (\<lambda>f. case primary_position f of
                                        None \<Rightarrow> False
                                      | Some p \<Rightarrow> empl_class p \<in> set [''AA'', ''AB'', ''AL'', ''AM''])
                                (faculty cs_dept);
                       teaching = filter (\<lambda>f. faculty_type f = ''teaching'') faculty_only;
                       tenure_track = filter (\<lambda>f. faculty_type f = ''tenure_track'') faculty_only;
                       research = filter (\<lambda>f. faculty_type f = ''research'') faculty_only;
                       clinical = filter (\<lambda>f. faculty_type f = ''clinical'') faculty_only;
                       teaching_ft = filter is_full_time_here teaching;
                       tenure_ft = filter is_full_time_here tenure_track
                   in Inr (Some (JObj
                        [(''department'',
                            JStr (case map_of dept_names cs_dept_id of
                                    Some n \<Rightarrow> n
                                  | None \<Rightarrow> cs_dept_id)),
                         (''summary'', JObj
                            [(''total_faculty'', JInt (int (length faculty_only))),
                             (''teaching_track'', JInt (int (length teaching))),
                             (''teaching_track_fulltime'', JInt (int (length teaching_ft))),
                             (''tenure_track'', JInt (int (length tenure_track))),
                             (''tenure_track_fulltime'', JInt (int (length tenure_ft))),
                             (''research'', JInt (int (length research))),
                             (''clinical'', JInt (int (length clinical)))]),
                         (''faculty'', JArr (map faculty_record faculty_only))])))))"

text \<open>
  The exit status of a script whose \<open>main\<close> ran to this result: an uncaught exception
  gives 1, a return gives 0.
\<close>

definition exit_status :: "error + 'a \<Rightarrow> nat" where
  "exit_status r = (case r of Inl e \<Rightarrow> 1 | Inr v \<Rightarrow> 0)"

section \<open>The analysis stage\<close>

text \<open>
  The analysis reads the artifact as untyped JSON, so every access can fail: a missing
  key is a \<open>KeyError\<close>, a subscript or a comparison on a value of the wrong kind a
  \<open>TypeError\<close>, \<open>.upper()\<close> on a value that is no string an \<open>AttributeError\<close>.
\<close>

definition getitem :: "json \<Rightarrow> string \<Rightarrow> error + json" where
  "getitem j k =
     (case j of
        JObj kvs \<Rightarrow> (case map_of kvs k of Some v \<Rightarrow> Inr v | None \<Rightarrow> Inl (KeyError k))
      | _ \<Rightarrow> Inl TypeError)"

definition iterate :: "json \<Rightarrow> error + json list" where
  "iterate j =
     (case j of
        JArr xs \<Rightarrow> Inr xs
      | JObj kvs \<Rightarrow> Inr (map (\<lambda>kv. JStr (fst kv)) kvs)
      | JStr cs \<Rightarrow> Inr (map (\<lambda>c. JStr [c]) cs)
      | _ \<Rightarrow> Inl TypeError)"

definition truthy :: "json \<Rightarrow> bool" where
  "truthy j =
     (case j of
        JNull \<Rightarrow> False
      | JBool b \<Rightarrow> b
      | JInt i \<Rightarrow> i \<noteq> 0
      | JNum x \<Rightarrow> \<not> pf_eq x (Finite 0)
      | JStr cs \<Rightarrow> cs \<noteq> []
      | JArr xs \<Rightarrow> xs \<noteq> []
      | JObj kvs \<Rightarrow> kvs \<noteq> [])"

definition str_upper :: "json \<Rightarrow> error + string" where
  "str_upper j = (case j of JStr cs \<Rightarrow> Inr (upper cs) | _ \<Rightarrow> Inl AttributeError)"

text \<open>The number a JSON value stands for in a comparison; a truth value counts as 0 or 1.\<close>

definition to_num :: "json \<Rightarrow> error + pyfloat" where
  "to_num j =
     (case j of
        JNum x \<Rightarrow> Inr x
      | JInt i \<Rightarrow> Inr (Finite (of_int i))
      | JBool b \<Rightarrow> Inr (Finite (if b then 1 else 0))
      | _ \<Rightarrow> Inl TypeError)"

definition num_key :: "json \<Rightarrow> pyfloat" where
  "num_key j = (case to_num j of Inr x \<Rightarrow> x | Inl e \<Rightarrow> NaN)"

fun filter_err :: "('a \<Rightarrow> error + bool) \<Rightarrow> 'a list \<Rightarrow> error + 'a list" where
  "filter_err P [] = Inr []"
| "filter_err P (x # xs) =
     bind_err (P x) (\<lambda>b. bind_err (filter_err P xs) (\<lambda>ys. Inr (if b then x # ys else ys)))"

fun map_err :: "('a \<Rightarrow> error + 'b) \<Rightarrow> 'a list \<Rightarrow> error + 'b list" where
  "map_err f [] = Inr []"
| "map_err f (x # xs) = bind_err (f x) (\<lambda>y. bind_err (map_err f xs) (\<lambda>ys. Inr (y # ys)))"

definition faculty_class :: "json \<Rightarrow> bool" where
  "faculty_class c \<longleftrightarrow> c \<in> set [JStr ''AA'', JStr ''AB'', JStr ''AL'', JStr ''AM'']"

definition is_clean_appointment :: "json \<Rightarrow> error + bool" where
  "is_clean_appointment faculty_entry =
     bind_err (getitem faculty_entry ''positions'') (\<lambda>ps.
     bind_err (iterate ps) (\<lambda>pl.
     bind_err (filter_err (\<lambda>p. bind_err (getitem p ''empl_class'') (\<lambda>c. Inr (faculty_class c))) pl)
       (\<lambda>faculty_positions.
          if faculty_positions = [] then Inr False
          else
            bind_err (map_err (\<lambda>p. bind_err (getitem p ''title'') str_upper) faculty_positions)
              (\<lambda>titles.
                 let has_teaching =
                       list_ex (\<lambda>t. contains ''TCH'' t \<or> contains ''TEACHING'' t \<or>
                                     contains ''LECTURER'' t) titles;
                     has_research = list_ex (\<lambda>t. contains ''RES '' t) titles;
                     has_tenure_track =
                       list_ex (\<lambda>t. contains ''PROF'' t \<and> \<not> contains ''TCH'' t \<and>
                                     \<not> contains ''RES'' t \<and> \<not> contains ''TEACHING'' t) titles;
                     tracks = length (filter id [has_teaching, has_research, has_tenure_track])
                 in Inr (tracks \<le> 1)))))"

definition normalize_rank :: "json \<Rightarrow> json \<Rightarrow> json" where
  "normalize_rank rank' faculty_type' =
     (if rank' = JStr ''senior_lecturer'' then JStr ''lecturer''
      else if rank' = JStr ''instructor'' then JStr ''assistant''
      else rank')"

definition get_primary_faculty_salary :: "json \<Rightarrow> error + json" where
  "get_primary_faculty_salary faculty_entry =
     bind_err (getitem faculty_entry ''positions'') (\<lambda>ps.
     bind_err (iterate ps) (\<lambda>pl.
     bind_err (filter_err
                 (\<lambda>p. bind_err (getitem p ''empl_class'') (\<lambda>c.
                         if faculty_class c then
                           bind_err (getitem p ''present_salary'') (\<lambda>v.
                           bind_err (to_num v) (\<lambda>x. Inr (pf_less (Finite 0) x)))
                         else Inr False))
                 pl)
       (\<lambda>faculty_positions.
          case faculty_positions of
            [] \<Rightarrow> Inr (JInt 0)
          | p # rest \<Rightarrow>
              bind_err (map_err (\<lambda>q. getitem q ''present_salary'') (p # rest)) (\<lambda>vs.
                Inr (max_loop num_key (hd vs) (tl vs))))))"

text \<open>
  The two collections that the first loop of \<open>main\<close> fills, and what it prints.  A
  notice is kept as a value, with the name it reports.  A rank that is a list or an
  object cannot be a dictionary key.
\<close>

record bucket =
  b_name :: json
  b_salary :: json
  b_total_salary :: json

datatype notice = ExcludingSplit json

record parity_state =
  teaching_by_rank :: "json \<Rightarrow> bucket list"
  tenure_by_rank :: "json \<Rightarrow> bucket list"
  printed :: "notice list"

definition hashable :: "json \<Rightarrow> bool" where
  "hashable j = (case j of JArr xs \<Rightarrow> False | JObj kvs \<Rightarrow> False | _ \<Rightarrow> True)"

definition parity_step :: "json \<Rightarrow> parity_state \<Rightarrow> error + parity_state" where
  "parity_step f st =
     bind_err (getitem f ''is_full_time_here'') (\<lambda>full_time.
       if \<not> truthy full_time then Inr st
       else
         bind_err (is_clean_appointment f) (\<lambda>clean.
           if \<not> clean then
             bind_err (getitem f ''name'') (\<lambda>n.
               Inr (st\<lparr>printed := printed st @ [ExcludingSplit n]\<rparr>))
           else
             bind_err (getitem f ''faculty_type'') (\<lambda>faculty_type'.
             bind_err (getitem f ''rank'') (\<lambda>r.
             bind_err (get_primary_faculty_salary f) (\<lambda>primary_salary.
               let rank' = normalize_rank r faculty_type' in
               if pf_eq (num_key primary_salary) (Finite 0) then Inr st
               else if faculty_type' = JStr ''teaching'' then
                 (if \<not> hashable rank' then Inl TypeError
                  else
                    bind_err (getitem f ''name'') (\<lambda>n.
                    bind_err (getitem f ''total_present_salary'') (\<lambda>total.
                      Inr (st\<lparr>teaching_by_rank := (teaching_by_rank st)
                             (rank' := teaching_by_rank st rank' @
                                [\<lparr>b_name = n, b_salary = primary_salary,
                                  b_total_salary = total\<rparr>])\<rparr>))))
               else if faculty_type' = JStr ''tenure_track'' then
                 (if \<not> hashable rank' then Inl TypeError
                  else
                    bind_err (getitem f ''name'') (\<lambda>n.
                    bind_err (getitem f ''total_present_salary'') (\<lambda>total.
                      Inr (st\<lparr>tenure_by_rank := (tenure_by_rank st)
                             (rank' := tenure_by_rank st rank' @
                                [\<lparr>b_name = n, b_salary = primary_salary,
                                  b_total_salary = total\<rparr>])\<rparr>))))
               else Inr st)))))"

fun parity_loop :: "json list \<Rightarrow> parity_state \<Rightarrow> error + parity_state" where
  "parity_loop [] st = Inr st"
| "parity_loop (f # fs) st = bind_err (parity_step f st) (parity_loop fs)"

text \<open>The first loop of the analysis \<open>main\<close>; the report it prints afterwards is left out.\<close>

definition main_aggregate :: "json \<Rightarrow> error + parity_state" where
  "main_aggregate data =
     bind_err (getitem data ''faculty'') (\<lambda>fs.
     bind_err (iterate fs) (\<lambda>entries.
       parity_loop entries
         \<lparr>teaching_by_rank = (\<lambda>r. []), tenure_by_rank = (\<lambda>r. []), printed = []\<rparr>))"

section \<open>Specification predicates\<close>


text \<open>
  The rank rule as the specification words it, over the uppercased title.  The two
  keywords that stand for the long spellings of ``assistant'' and ``associate'' are
  parameters: the specification names \<open>ASSISTANT\<close> and \<open>ASSOCIATE\<close>.
\<close>

definition rank_rule :: "string \<Rightarrow> string \<Rightarrow> string \<Rightarrow> string" where
  "rank_rule kw_assistant kw_associate t =
     (if contains ''ASST PROF'' t \<or> contains kw_assistant t then ''assistant''
      else if contains ''ASSOC PROF'' t \<or> contains kw_associate t then ''associate''
      else if contains ''PROF'' t then ''full''
      else if contains ''LECTURER'' t \<and> contains ''SR'' t then ''senior_lecturer''
      else if contains ''LECTURER'' t then ''lecturer''
      else if contains ''INSTR'' t then ''instructor''
      else ''other'')"

definition rank_spec :: "string \<Rightarrow> string" where
  "rank_spec t = rank_rule ''ASSISTANT'' ''ASSOCIATE'' t"

text \<open>
  A currency string of the form \<open>$1,234.56\<close>: a dollar sign, a first group of digits,
  further groups each led by a comma, a point and two decimals.  \<open>currency_value\<close> is the
  number such a string denotes.
\<close>

definition currency_body :: "string \<Rightarrow> string list \<Rightarrow> char \<Rightarrow> char \<Rightarrow> string" where
  "currency_body head groups f1 f2 =
     head @ concat (map (\<lambda>g. CHR '','' # g) groups) @ [CHR ''.'', f1, f2]"

definition currency_ok :: "string \<Rightarrow> string list \<Rightarrow> char \<Rightarrow> char \<Rightarrow> bool" where
  "currency_ok head groups f1 f2 \<longleftrightarrow>
     head \<noteq> [] \<and> list_all is_digit head \<and> list_all (list_all is_digit) groups \<and>
     is_digit f1 \<and> is_digit f2"


text \<open>A department heading: the start of an \<open>h3\<close> element that carries an \<open>id\<close> attribute.\<close>

definition is_heading :: "event \<Rightarrow> bool" where
  "is_heading e =
     (case e of
        StartTag tag attrs \<Rightarrow> tag = ''h3'' \<and> map_of (rev attrs) ''id'' \<noteq> None
      | _ \<Rightarrow> False)"

text \<open>A row that \<open>_process_row\<close> does not skip: eight cells or more, and no subtotal title.\<close>

definition processed_row :: "string list \<Rightarrow> bool" where
  "processed_row row \<longleftrightarrow> 8 \<le> length row \<and> \<not> contains ''Employee Total'' (row ! 1)"

text \<open>
  The salary groups of the entry pattern match \<open>\d{1,3}(?:,\d{3})*\.\d{2}\<close>: a first
  group of digits, further groups led by a comma, a point and two decimals.
\<close>

definition salary_group :: "string \<Rightarrow> bool" where
  "salary_group g \<longleftrightarrow>
     (\<exists>head groups f1 f2. currency_ok head groups f1 f2 \<and> g = currency_body head groups f1 f2)"

text \<open>Every member sits under its own, non-empty department identifier.\<close>

definition attributed :: "parser_state \<Rightarrow> bool" where
  "attributed s \<longleftrightarrow>
     (\<forall>k d. departments s k = Some d \<longrightarrow>
        truthy_id k \<and> (\<forall>m\<in>set (faculty d). department m = k))"

text \<open>The fields of a member record of the artifact, as the specification lists them.\<close>

definition artifact_fields :: "string list" where
  "artifact_fields =
     [''name'', ''faculty_type'', ''rank'', ''is_full_time_here'', ''is_joint_appointment'',
      ''total_present_salary'', ''total_proposed_salary'', ''total_present_fte'', ''positions'']"

definition json_keys :: "json \<Rightarrow> string list" where
  "json_keys j = (case j of JObj kvs \<Rightarrow> map fst kvs | _ \<Rightarrow> [])"

text \<open>
  The three tracks of the parity comparison, and the titles (uppercased) that the
  clean-appointment scan counts towards each.
\<close>

datatype track = Teaching | Research | TenureTrack

fun title_in_track :: "track \<Rightarrow> string \<Rightarrow> bool" where
  "title_in_track Teaching t =
     (contains ''TCH'' t \<or> contains ''TEACHING'' t \<or> contains ''LECTURER'' t)"
| "title_in_track Research t = contains ''RES '' t"
| "title_in_track TenureTrack t =
     (contains ''PROF'' t \<and> \<not> contains ''TCH'' t \<and> \<not> contains ''RES'' t \<and>
      \<not> contains ''TEACHING'' t)"

text \<open>The loop invariant of the flattened-text assembler: no salary held so far is negative.\<close>

definition nonneg_positions :: "position list \<Rightarrow> bool" where
  "nonneg_positions ps \<longleftrightarrow>
     (\<forall>p\<in>set ps. pf_le (Finite 0) (present_salary p) \<and> pf_le (Finite 0) (proposed_salary p))"

definition nonneg_state :: "simple_state \<Rightarrow> bool" where
  "nonneg_state st \<longleftrightarrow>
     nonneg_positions (current_positions st) \<and>
     (\<forall>f\<in>set (faculty_docx st). nonneg_positions (positions_docx f))"

section \<open>Example data\<close>

definition mk_position :: "string \<Rightarrow> string \<Rightarrow> rat \<Rightarrow> rat \<Rightarrow> position" where
  "mk_position t c fte sal =
     \<lparr>title = t, tenure_code = ''A'', empl_class = c,
      present_fte = Finite fte, proposed_fte = Finite fte,
      present_salary = Finite sal, proposed_salary = Finite sal\<rparr>"

definition row_events :: "string list \<Rightarrow> event list" where
  "row_events cells =
     StartTag ''tr'' [] #
     concat (map (\<lambda>c. [StartTag ''td'' [], Data c, EndTag ''td'']) cells) @ [EndTag ''tr'']"

definition row_jane :: "string list" where
  "row_jane =
     [''Smith, Jane'', ''PROF'', ''A'', ''AA'', ''1'', ''1'', ''$150,000.00'', ''$155,000.00'']"

definition row_stipend :: "string list" where
  "row_stipend =
     [[], ''ADMIN STIPEND'', [], ''BA'', ''0'', ''0'', ''$5,000.00'', ''$5,000.00'']"

definition row_negative :: "string list" where
  "row_negative = [''Smith, Jane'', ''PROF'', ''A'', ''AA'', ''1'', ''1'', ''-5.00'', ''-5.00'']"

definition in_dept :: "string \<Rightarrow> parser_state" where
  "in_dept d = GrayBookHTMLParser_init\<lparr>current_dept_id := Some d, in_table := True\<rparr>"

definition match_jane :: entry_match where
  "match_jane =
     \<lparr>group1 = ''Smith, Jane'', group2 = ''PROF'', group3 = ''A'', group4 = ''1'',
      group5 = ''1'', group6 = ''150,000.00'', group7 = ''155,000.00''\<rparr>"

section \<open>Properties: floats and the maximum loop\<close>


lemma pf_less_le_trans: "pf_less a b \<Longrightarrow> \<not> pf_less c b \<Longrightarrow> c \<noteq> NaN \<Longrightarrow> pf_less a c"
  by (cases a; cases b; cases c) auto





section \<open>Properties: primary position\<close>







section \<open>Properties: the classifiers\<close>

text \<open>
  Claim C2, as amended.  In both pipelines a member whose primary-position title, once
  uppercased, contains \<open>TCH\<close> followed by a space is classified as teaching (hence never
  as tenure track), whatever else the title contains.  The keyword of the code carries
  the trailing space: a title with \<open>TCH\<close> not followed by a space and with no other
  teaching keyword goes on to the later rules.
\<close>

theorem tch_space_teaching:
  "(primary_position m = Some p \<and> contains ''TCH '' (upper (title p)) \<longrightarrow>
      faculty_type m = ''teaching'') \<and>
   (primary_position_docx d = Some q \<and> contains ''TCH '' (upper (title q)) \<longrightarrow>
      faculty_type_docx d = ''teaching'')"
  by (simp add: faculty_type_def faculty_type_docx_def)

theorem tch_space_teaching_witness:
  "primary_position \<lparr>name = ''Challen, Geoffrey'', department = Some ''c42-d6'',
       positions = [mk_position ''TCH ASST PROF'' ''AA'' 1 100000]\<rparr>
     = Some (mk_position ''TCH ASST PROF'' ''AA'' 1 100000) \<and>
   contains ''TCH '' (upper (title (mk_position ''TCH ASST PROF'' ''AA'' 1 100000))) \<and>
   faculty_type \<lparr>name = ''Challen, Geoffrey'', department = Some ''c42-d6'',
       positions = [mk_position ''TCH ASST PROF'' ''AA'' 1 100000]\<rparr> = ''teaching'' \<and>
   primary_position_docx (FacultyMember_docx ''Challen, Geoffrey''
       [mk_position ''TCH ASST PROF'' ''AA'' 1 100000])
     = Some (mk_position ''TCH ASST PROF'' ''AA'' 1 100000) \<and>
   faculty_type_docx (FacultyMember_docx ''Challen, Geoffrey''
       [mk_position ''TCH ASST PROF'' ''AA'' 1 100000]) = ''teaching''"
  using tch_space_teaching
    [of "\<lparr>name = ''Challen, Geoffrey'', department = Some ''c42-d6'',
       positions = [mk_position ''TCH ASST PROF'' ''AA'' 1 100000]\<rparr>"
        "mk_position ''TCH ASST PROF'' ''AA'' 1 100000"
        "FacultyMember_docx ''Challen, Geoffrey'' [mk_position ''TCH ASST PROF'' ''AA'' 1 100000]"
        "mk_position ''TCH ASST PROF'' ''AA'' 1 100000"]
  by (simp add: primary_position_def primary_position_docx_def FacultyMember_docx_def
        mk_position_def upper_def upper_char_def)

theorem tch_prof_counterexample:
  "contains ''TCH'' (upper (title (mk_position ''PROF TCH'' ''AA'' 1 100000))) \<and>
   contains ''PROF'' (upper (title (mk_position ''PROF TCH'' ''AA'' 1 100000))) \<and>
   primary_position \<lparr>name = ''Smith, Jane'', department = Some ''c42-d6'',
       positions = [mk_position ''PROF TCH'' ''AA'' 1 100000]\<rparr>
     = Some (mk_position ''PROF TCH'' ''AA'' 1 100000) \<and>
   faculty_type \<lparr>name = ''Smith, Jane'', department = Some ''c42-d6'',
       positions = [mk_position ''PROF TCH'' ''AA'' 1 100000]\<rparr> = ''tenure_track'' \<and>
   primary_position_docx (FacultyMember_docx ''Smith, Jane''
       [mk_position ''PROF TCH'' ''AA'' 1 100000])
     = Some (mk_position ''PROF TCH'' ''AA'' 1 100000) \<and>
   faculty_type_docx (FacultyMember_docx ''Smith, Jane''
       [mk_position ''PROF TCH'' ''AA'' 1 100000]) = ''tenure_track''"
  by (simp add: faculty_type_def faculty_type_docx_def primary_position_def
        primary_position_docx_def FacultyMember_docx_def mk_position_def upper_def upper_char_def)

text \<open>
  Claim C6, as amended.  The flattened-text pipeline derives the rank by the priority scan
  of the specification.  The table pipeline runs the same scan with the keywords
  \<open>ASSISTANT PROF\<close> and \<open>ASSOCIATE PROF\<close> in place of \<open>ASSISTANT\<close> and \<open>ASSOCIATE\<close>.
\<close>

theorem rank_priority_scan:
  "(primary_position_docx d = Some q \<longrightarrow> rank_docx d = rank_spec (upper (title q))) \<and>
   (primary_position m = Some p \<longrightarrow>
      rank m = rank_rule ''ASSISTANT PROF'' ''ASSOCIATE PROF'' (upper (title p)))"
  by (simp add: rank_def rank_docx_def rank_spec_def rank_rule_def)

theorem rank_priority_scan_witness:
  "primary_position_docx (FacultyMember_docx ''Smith, Jane''
       [mk_position ''SR LECTURER'' ''AA'' 1 90000])
     = Some (mk_position ''SR LECTURER'' ''AA'' 1 90000) \<and>
   rank_docx (FacultyMember_docx ''Smith, Jane'' [mk_position ''SR LECTURER'' ''AA'' 1 90000])
     = ''senior_lecturer'' \<and>
   primary_position \<lparr>name = ''Smith, Jane'', department = Some ''c42-d6'',
       positions = [mk_position ''ASSOC PROF'' ''AA'' 1 100000]\<rparr>
     = Some (mk_position ''ASSOC PROF'' ''AA'' 1 100000) \<and>
   rank \<lparr>name = ''Smith, Jane'', department = Some ''c42-d6'',
       positions = [mk_position ''ASSOC PROF'' ''AA'' 1 100000]\<rparr> = ''associate''"
  using rank_priority_scan
    [of "FacultyMember_docx ''Smith, Jane'' [mk_position ''SR LECTURER'' ''AA'' 1 90000]"
        "mk_position ''SR LECTURER'' ''AA'' 1 90000"
        "\<lparr>name = ''Smith, Jane'', department = Some ''c42-d6'',
       positions = [mk_position ''ASSOC PROF'' ''AA'' 1 100000]\<rparr>"
        "mk_position ''ASSOC PROF'' ''AA'' 1 100000"]
  by (simp add: primary_position_def primary_position_docx_def FacultyMember_docx_def
        mk_position_def upper_def upper_char_def rank_spec_def rank_rule_def)

theorem rank_html_counterexample:
  "primary_position \<lparr>name = ''Smith, Jane'', department = Some ''c42-d6'',
       positions = [mk_position ''ASSISTANT DEAN'' ''AA'' 1 100000]\<rparr>
     = Some (mk_position ''ASSISTANT DEAN'' ''AA'' 1 100000) \<and>
   contains ''ASSISTANT'' (upper (title (mk_position ''ASSISTANT DEAN'' ''AA'' 1 100000))) \<and>
   rank_spec (upper (title (mk_position ''ASSISTANT DEAN'' ''AA'' 1 100000))) = ''assistant'' \<and>
   rank \<lparr>name = ''Smith, Jane'', department = Some ''c42-d6'',
       positions = [mk_position ''ASSISTANT DEAN'' ''AA'' 1 100000]\<rparr> = ''other''"
  by (simp add: rank_def primary_position_def mk_position_def upper_def upper_char_def
        rank_spec_def rank_rule_def)

section \<open>Properties: parsing the numeric fields\<close>

lemma replace_char: "replace [c] [] s = filter (\<lambda>x. x \<noteq> c) s"
  by (induction s) (simp_all add: replace.simps)

lemma dropWhile_hd_id: "xs \<noteq> [] \<Longrightarrow> \<not> P (hd xs) \<Longrightarrow> dropWhile P xs = xs"
  by (cases xs) auto

lemma strip_id: "s \<noteq> [] \<Longrightarrow> \<not> is_space (hd s) \<Longrightarrow> \<not> is_space (last s) \<Longrightarrow> strip s = s"
proof -
  assume a: "s \<noteq> []" "\<not> is_space (hd s)" "\<not> is_space (last s)"
  from a(1,2) have 1: "dropWhile is_space s = s" by (rule dropWhile_hd_id)
  from a have "rev s \<noteq> []" and "\<not> is_space (hd (rev s))" by (simp_all add: hd_rev)
  then have 2: "dropWhile is_space (rev s) = rev s" by (rule dropWhile_hd_id)
  show ?thesis unfolding strip_def 1 2 by simp
qed

lemma digit_not_space: "is_digit c \<Longrightarrow> \<not> is_space c"
  by (auto simp: is_digit_def is_space_def)

lemma digit_not_special:
  "is_digit c \<Longrightarrow> c \<noteq> CHR ''$'' \<and> c \<noteq> CHR '','' \<and> c \<noteq> CHR ''_'' \<and> c \<noteq> CHR ''.'' \<and>
     c \<noteq> CHR ''-'' \<and> c \<noteq> CHR ''+''"
  by (auto simp: is_digit_def)

lemma foldl_digits:
  "foldl (\<lambda>n c. 10 * n + digit_val c) a ys =
     a * 10 ^ length ys + foldl (\<lambda>n c. 10 * n + digit_val c) 0 ys"
proof (induction ys arbitrary: a)
  case Nil
  show ?case by simp
next
  case (Cons y ys)
  define g where "g = foldl (\<lambda>n c. 10 * n + digit_val c) 0 ys"
  have 1: "foldl (\<lambda>n c. 10 * n + digit_val c) (10 * a + digit_val y) ys =
          (10 * a + digit_val y) * 10 ^ length ys + g" unfolding g_def by (rule Cons.IH)
  have 2: "foldl (\<lambda>n c. 10 * n + digit_val c) (digit_val y) ys =
          digit_val y * 10 ^ length ys + g"
    unfolding g_def by (rule Cons.IH)
  have "(10 * a + digit_val y) * 10 ^ length ys + g =
        a * 10 ^ length (y # ys) + (digit_val y * 10 ^ length ys + g)"
    by (simp add: algebra_simps)
  then show ?case by (simp only: foldl_Cons 1 2 mult_0_right add_0_left)
qed

lemma digits_value_append:
  "digits_value (xs @ ys) = digits_value xs * 10 ^ length ys + digits_value ys"
  unfolding digits_value_def foldl_append by (rule foldl_digits)

lemma float_py_only_ValueError: "float_py s = Inl e \<Longrightarrow> e = ValueError"
  by (auto simp: float_py_def float_inner_def split: option.splits prod.splits if_splits)

text \<open>The decimal numeral \<open>ds.f1f2\<close> with a nonempty digit string \<open>ds\<close>.\<close>

lemma float_py_decimal:
  assumes ds: "ds \<noteq> []" "list_all is_digit ds" and f: "is_digit f1" "is_digit f2"
  shows "float_py (ds @ [CHR ''.'', f1, f2]) =
         Inr (Finite (of_nat (digits_value ds) + of_nat (digits_value [f1, f2]) / 100))"
proof -
  let ?s = "ds @ [CHR ''.'', f1, f2]"
  from ds obtain d rest where dr: "ds = d # rest" by (cases ds) auto
  with ds have d: "is_digit d" by simp
  have nounder: "CHR ''_'' \<notin> set ?s"
    using ds f digit_not_special by (auto simp: list_all_iff)
  have "hd ?s = d" using dr by simp
  moreover have "last ?s = f2" by simp
  ultimately have st: "strip ?s = ?s"
    using d f digit_not_space by (intro strip_id) simp_all
  have sg: "sign_split ?s = (False, ?s)"
    using dr d digit_not_special [of d] by simp
  have tw: "takeWhile is_digit ?s = ds"
    using ds by (simp add: takeWhile_append2 list_all_iff is_digit_def)
  have dw: "dropWhile is_digit ?s = [CHR ''.'', f1, f2]"
    using ds by (simp add: dropWhile_append2 list_all_iff is_digit_def)
  have "parse_number ?s =
        Some (of_nat (digits_value (ds @ [f1, f2])) * pow10 (- 2))"
    using f ds by (simp add: parse_number_def tw dw parse_exponent_def Let_def)
  also have "of_nat (digits_value (ds @ [f1, f2])) * pow10 (- 2) =
        (of_nat (digits_value ds) + of_nat (digits_value [f1, f2]) / 100 :: rat)"
    by (simp add: digits_value_append pow10_def field_simps)
  finally show ?thesis
    using nounder by (simp add: float_py_def float_inner_def st sg)
qed

lemma currency_cleaned:
  assumes "currency_ok head groups f1 f2"
  shows "replace '','' [] (replace ''$'' [] (CHR ''$'' # currency_body head groups f1 f2)) =
         (head @ concat groups) @ [CHR ''.'', f1, f2]"
proof -
  have g: "list_all (list_all is_digit) gs \<Longrightarrow>
        filter (\<lambda>x. x \<noteq> CHR '','') (filter (\<lambda>x. x \<noteq> CHR ''$'') (concat (map (\<lambda>g. CHR '','' # g) gs)))
          = concat gs" for gs
  proof (induction gs)
    case Nil show ?case by simp
  next
    case (Cons a gs)
    then have "\<forall>c\<in>set a. c \<noteq> CHR ''$'' \<and> c \<noteq> CHR '',''"
      using digit_not_special by (auto simp: list_all_iff)
    then have "filter (\<lambda>x. x \<noteq> CHR '','') (filter (\<lambda>x. x \<noteq> CHR ''$'') a) = a"
      by (simp add: filter_id_conv)
    with Cons show ?case by simp
  qed
  from assms have "\<forall>c\<in>set head. c \<noteq> CHR ''$'' \<and> c \<noteq> CHR '',''"
    using digit_not_special by (auto simp: currency_ok_def list_all_iff)
  then have h: "filter (\<lambda>x. x \<noteq> CHR '','') (filter (\<lambda>x. x \<noteq> CHR ''$'') head) = head"
    by (simp add: filter_id_conv)
  from assms have "f1 \<noteq> CHR ''$'' \<and> f1 \<noteq> CHR '','' \<and> f2 \<noteq> CHR ''$'' \<and> f2 \<noteq> CHR '',''"
    using digit_not_special by (auto simp: currency_ok_def)
  with assms h g [of groups] show ?thesis
    by (simp add: replace_char currency_body_def currency_ok_def)
qed

lemma currency_digits:
  assumes "currency_ok head groups f1 f2"
  shows "head @ concat groups \<noteq> [] \<and> list_all is_digit (head @ concat groups)"
  using assms by (auto simp: currency_ok_def list_all_iff)



section \<open>Properties: the table walker\<close>

lemma parse_salary_total: "\<exists>v. parse_salary s = Inr v"
  by (auto simp: parse_salary_def Let_def split: sum.splits dest: float_py_only_ValueError)

lemma parse_fte_total: "\<exists>v. parse_fte s = Inr v"
  by (auto simp: parse_fte_def split: sum.splits dest: float_py_only_ValueError)

lemma row_position_total:
  "\<exists>fa fb sa sb. parse_fte (row ! 4) = Inr fa \<and> parse_fte (row ! 5) = Inr fb \<and>
     parse_salary (row ! 6) = Inr sa \<and> parse_salary (row ! 7) = Inr sb \<and>
     row_position row =
       Inr \<lparr>title = row ! 1, tenure_code = row ! 2, empl_class = row ! 3,
            present_fte = fa, proposed_fte = fb, present_salary = sa, proposed_salary = sb\<rparr>"
proof -
  obtain fa fb sa sb where "parse_fte (row ! 4) = Inr fa" "parse_fte (row ! 5) = Inr fb"
    "parse_salary (row ! 6) = Inr sa" "parse_salary (row ! 7) = Inr sb"
    using parse_fte_total parse_salary_total by meson
  then show ?thesis by (simp add: row_position_def bind_err_def)
qed

lemma process_row_skip: "\<not> processed_row row \<Longrightarrow> process_row row s = Inr s"
  by (auto simp: processed_row_def process_row_def)

text \<open>What a processed row does to the state.\<close>

lemma process_row_step:
  assumes "processed_row row" and "row_position row = Inr pos"
  shows "process_row row s =
           Inr (s\<lparr>departments := (departments s)(current_dept_id s \<mapsto>
             (case departments s (current_dept_id s) of
                None \<Rightarrow> \<lparr>dept_name = current_dept_id s,
                          faculty = [\<lparr>name = row ! 0, department = current_dept_id s,
                                      positions = [pos]\<rparr>]\<rparr>
              | Some d \<Rightarrow>
                  d\<lparr>faculty :=
                      (if faculty d \<noteq> [] \<and> (row ! 0 = [] \<or> row ! 0 = name (last (faculty d)))
                       then butlast (faculty d) @
                            [(last (faculty d))\<lparr>positions := positions (last (faculty d)) @ [pos]\<rparr>]
                       else faculty d @ [\<lparr>name = row ! 0, department = current_dept_id s,
                                           positions = [pos]\<rparr>])\<rparr>))\<rparr>)"
  using assms
  by (auto simp: processed_row_def process_row_def bind_err_def Let_def split: option.splits)

lemma process_row_total: "\<exists>s'. process_row row s = Inr s'"
proof (cases "processed_row row")
  case False
  then show ?thesis by (simp add: process_row_skip)
next
  case True
  obtain pos where "row_position row = Inr pos" using row_position_total by blast
  from process_row_step [OF True this] show ?thesis by blast
qed

lemma process_row_frame:
  "process_row row s = Inr s' \<Longrightarrow>
     current_dept_id s' = current_dept_id s \<and>
     (\<forall>k. k \<noteq> current_dept_id s \<longrightarrow> departments s' k = departments s k)"
proof (cases "processed_row row")
  case False
  assume "process_row row s = Inr s'"
  with False show ?thesis by (simp add: process_row_skip)
next
  case True
  assume a: "process_row row s = Inr s'"
  obtain pos where "row_position row = Inr pos" using row_position_total by blast
  from process_row_step [OF True this, of s] a show ?thesis by auto
qed

lemma handle_starttag_frame:
  "departments (handle_starttag tag attrs s) = departments s \<and>
   (\<not> is_heading (StartTag tag attrs) \<longrightarrow>
      current_dept_id (handle_starttag tag attrs s) = current_dept_id s)"
  by (simp add: handle_starttag_def is_heading_def Let_def split: option.splits)

lemma handle_data_frame:
  "departments (handle_data data s) = departments s \<and>
   current_dept_id (handle_data data s) = current_dept_id s"
  by (simp add: handle_data_def)

lemma handle_endtag_total: "\<exists>s'. handle_endtag tag s = Inr s'"
  using process_row_total by (simp add: handle_endtag_def Let_def)

lemma handle_endtag_no_dept:
  "\<not> truthy_id (current_dept_id s) \<Longrightarrow> handle_endtag tag s = Inr s' \<Longrightarrow>
     departments s' = departments s \<and> current_dept_id s' = current_dept_id s"
  by (auto simp: handle_endtag_def Let_def split: if_splits)

lemma handle_endtag_dept_id:
  "handle_endtag tag s = Inr s' \<Longrightarrow> current_dept_id s' = current_dept_id s"
  by (auto simp: handle_endtag_def Let_def split: if_splits dest: process_row_frame)

lemma handle_event_total: "\<exists>s'. handle_event e s = Inr s'"
  using handle_endtag_total by (cases e) simp_all

lemma feed_total: "\<exists>s'. feed es s = Inr s'"
proof (induction es arbitrary: s)
  case Nil
  show ?case by simp
next
  case (Cons e es)
  obtain s1 where "handle_event e s = Inr s1" using handle_event_total by blast
  with Cons show ?case by (simp add: bind_err_def)
qed

lemma feed_no_heading:
  "current_dept_id s0 = None \<Longrightarrow> list_all (\<lambda>e. \<not> is_heading e) es \<Longrightarrow>
   \<exists>s. feed es s0 = Inr s \<and> departments s = departments s0 \<and> current_dept_id s = None"
proof (induction es arbitrary: s0)
  case Nil
  then show ?case by simp
next
  case (Cons e es)
  obtain s1 where s1: "handle_event e s0 = Inr s1" using handle_event_total by blast
  have "departments s1 = departments s0 \<and> current_dept_id s1 = None"
  proof (cases e)
    case (StartTag tag attrs)
    with s1 Cons.prems handle_starttag_frame [of tag attrs s0] show ?thesis by auto
  next
    case (EndTag tag)
    with s1 Cons.prems handle_endtag_no_dept [of s0 tag s1] show ?thesis
      by (simp add: truthy_id_def)
  next
    case (Data data)
    with s1 Cons.prems handle_data_frame [of data s0] show ?thesis by auto
  qed
  moreover from Cons.prems have "list_all (\<lambda>e. \<not> is_heading e) es" by simp
  ultimately obtain s where "feed es s1 = Inr s" "departments s = departments s0"
    "current_dept_id s = None"
    using Cons.IH [of s1] by auto
  with s1 show ?case by (simp add: bind_err_def)
qed

lemma process_row_attributed:
  assumes "attributed s" and "truthy_id (current_dept_id s)" and "process_row row s = Inr s'"
  shows "attributed s'"
proof (cases "processed_row row")
  case False
  with assms show ?thesis by (simp add: process_row_skip)
next
  case True
  obtain pos where "row_position row = Inr pos" using row_position_total by blast
  note step = process_row_step [OF True this, of s]
  show ?thesis
    unfolding attributed_def
  proof (intro allI impI)
    fix k d
    assume kd: "departments s' k = Some d"
    show "truthy_id k \<and> (\<forall>m\<in>set (faculty d). department m = k)"
    proof (cases "k = current_dept_id s")
      case False
      with step assms(3) kd have "departments s k = Some d" by auto
      with assms(1) show ?thesis unfolding attributed_def by blast
    next
      case k: True
      show ?thesis
      proof (cases "departments s k")
        case None
        with step assms(3) kd k have "faculty d = [\<lparr>name = row ! 0, department = k, positions = [pos]\<rparr>]"
          by auto
        with assms(2) k show ?thesis by simp
      next
        case (Some d0)
        with assms(1) have old: "\<forall>m\<in>set (faculty d0). department m = k"
          unfolding attributed_def by blast
        from Some step assms(3) kd k have fd: "faculty d =
            (if faculty d0 \<noteq> [] \<and> (row ! 0 = [] \<or> row ! 0 = name (last (faculty d0)))
             then butlast (faculty d0) @
                  [(last (faculty d0))\<lparr>positions := positions (last (faculty d0)) @ [pos]\<rparr>]
             else faculty d0 @ [\<lparr>name = row ! 0, department = k, positions = [pos]\<rparr>])"
          by auto
        have "\<forall>m\<in>set (faculty d). department m = k"
        proof (cases "faculty d0 \<noteq> [] \<and> (row ! 0 = [] \<or> row ! 0 = name (last (faculty d0)))")
          case False
          with fd old show ?thesis by auto
        next
          case True
          then have "last (faculty d0) \<in> set (faculty d0)" by simp
          with old have "department (last (faculty d0)) = k" by blast
          moreover have "set (butlast (faculty d0)) \<subseteq> set (faculty d0)"
            by (auto dest: in_set_butlastD)
          ultimately show ?thesis using fd True old by auto
        qed
        with assms(2) k show ?thesis by simp
      qed
    qed
  qed
qed

lemma handle_event_attributed:
  assumes "attributed s" and "handle_event e s = Inr s'"
  shows "attributed s'"
proof (cases e)
  case (StartTag tag attrs)
  with assms handle_starttag_frame [of tag attrs s] show ?thesis
    by (auto simp: attributed_def)
next
  case (Data data)
  with assms handle_data_frame [of data s] show ?thesis
    by (auto simp: attributed_def)
next
  case (EndTag tag)
  let ?s3 = "(let s1 = (if tag = ''thead'' then s\<lparr>in_thead := False\<rparr> else s);
          s2 = (if tag = ''table'' then s1\<lparr>in_table := False\<rparr> else s1)
      in (if (tag = ''td'' \<or> tag = ''th'') \<and> in_cell s2
                then s2\<lparr>in_cell := False,
                        current_row := current_row s2 @ [strip (current_cell_text s2)]\<rparr>
                else s2))"
  have d3: "departments ?s3 = departments s" "current_dept_id ?s3 = current_dept_id s"
    by (simp_all add: Let_def)
  then have a3: "attributed (?s3\<lparr>in_row := False\<rparr>)" "attributed ?s3"
    using assms(1) by (simp_all add: attributed_def)
  from assms(2) EndTag have
    "s' = ?s3 \<or> s' = ?s3\<lparr>in_row := False\<rparr> \<or>
     (truthy_id (current_dept_id (?s3\<lparr>in_row := False\<rparr>)) \<and>
      process_row (current_row (?s3\<lparr>in_row := False\<rparr>)) (?s3\<lparr>in_row := False\<rparr>) = Inr s')"
    by (auto simp: handle_endtag_def Let_def split: if_splits)
  with a3 show ?thesis using process_row_attributed by blast
qed

lemma feed_attributed: "attributed s \<Longrightarrow> feed es s = Inr s' \<Longrightarrow> attributed s'"
proof (induction es arbitrary: s)
  case Nil
  then show ?case by simp
next
  case (Cons e es)
  obtain s1 where s1: "handle_event e s = Inr s1" using handle_event_total by blast
  with Cons.prems have "attributed s1" "feed es s1 = Inr s'"
    using handle_event_attributed by (auto simp: bind_err_def)
  then show ?case by (rule Cons.IH)
qed

lemma init_attributed: "attributed GrayBookHTMLParser_init"
  by (simp add: attributed_def GrayBookHTMLParser_init_def)

text \<open>
  Claim C10.  While no department heading (an \<open>h3\<close> start tag with an \<open>id\<close> attribute) has
  been seen, the walker never fails and leaves the departments mapping as it is: the rows
  are dropped.  And in every run, every member of every department entry carries the
  identifier under which the entry is stored, which is a non-empty string.
\<close>

theorem rows_before_heading_discarded:
  "(current_dept_id s0 = None \<and> list_all (\<lambda>e. \<not> is_heading e) es \<longrightarrow>
      (\<exists>s. feed es s0 = Inr s \<and> departments s = departments s0 \<and> current_dept_id s = None)) \<and>
   (feed es' GrayBookHTMLParser_init = Inr s' \<and> departments s' k = Some d \<and>
    m \<in> set (faculty d) \<longrightarrow> (\<exists>i. k = Some i \<and> i \<noteq> [] \<and> department m = Some i))"
proof (intro conjI impI)
  assume "current_dept_id s0 = None \<and> list_all (\<lambda>e. \<not> is_heading e) es"
  then show "\<exists>s. feed es s0 = Inr s \<and> departments s = departments s0 \<and> current_dept_id s = None"
    using feed_no_heading by blast
next
  assume a: "feed es' GrayBookHTMLParser_init = Inr s' \<and> departments s' k = Some d \<and>
    m \<in> set (faculty d)"
  then have "attributed s'" using feed_attributed init_attributed by blast
  with a have "truthy_id k" "department m = k" unfolding attributed_def by blast+
  then show "\<exists>i. k = Some i \<and> i \<noteq> [] \<and> department m = Some i"
    by (cases k) (simp_all add: truthy_id_def)
qed

text \<open>
  Claim C5.  Of two consecutive rows that \<open>_process_row\<close> does not skip, in the same
  department, the first leaves a non-empty member list; the second, when its name cell
  is empty or equal to the name of the last member, adds its \<open>Position\<close> to that member,
  and otherwise appends a new member that holds this one \<open>Position\<close>.  (The walker strips
  every cell, so a blank name cell arrives as the empty string.)
\<close>

theorem continuation_merge:
  assumes "processed_row r1" and "processed_row r2"
  shows "\<exists>s1 s2 d1 d2 p2.
           process_row r1 s = Inr s1 \<and> process_row r2 s1 = Inr s2 \<and> row_position r2 = Inr p2 \<and>
           departments s1 (current_dept_id s) = Some d1 \<and> faculty d1 \<noteq> [] \<and>
           departments s2 (current_dept_id s) = Some d2 \<and>
           faculty d2 =
             (if r2 ! 0 = [] \<or> r2 ! 0 = name (last (faculty d1))
              then butlast (faculty d1) @
                   [(last (faculty d1))\<lparr>positions := positions (last (faculty d1)) @ [p2]\<rparr>]
              else faculty d1 @
                   [\<lparr>name = r2 ! 0, department = current_dept_id s, positions = [p2]\<rparr>])"
proof -
  obtain p1 where p1: "row_position r1 = Inr p1" using row_position_total by blast
  obtain p2 where p2: "row_position r2 = Inr p2" using row_position_total by blast
  obtain s1 where s1: "process_row r1 s = Inr s1" using process_row_total by blast
  obtain s2 where s2: "process_row r2 s1 = Inr s2" using process_row_total by blast
  from process_row_step [OF assms(1) p1, of s] s1
  obtain d1 where d1: "departments s1 (current_dept_id s) = Some d1" and ne: "faculty d1 \<noteq> []"
    by (auto split: option.splits if_splits)
  from process_row_frame [OF s1] have id: "current_dept_id s1 = current_dept_id s" by simp
  from process_row_step [OF assms(2) p2, of s1] s2 d1 id ne
  have "departments s2 (current_dept_id s) =
          Some (d1\<lparr>faculty :=
             (if r2 ! 0 = [] \<or> r2 ! 0 = name (last (faculty d1))
              then butlast (faculty d1) @
                   [(last (faculty d1))\<lparr>positions := positions (last (faculty d1)) @ [p2]\<rparr>]
              else faculty d1 @
                   [\<lparr>name = r2 ! 0, department = current_dept_id s, positions = [p2]\<rparr>])\<rparr>)"
    by auto
  with s1 s2 p2 d1 ne show ?thesis by force
qed

lemmas float_eval = float_py_def float_inner_def strip_def is_space_def parse_number_def
  is_digit_def parse_exponent_def digits_value_def digit_val_def pow10_def
  parse_inf_or_nan_def lower_char_def replace_char parse_salary_def parse_fte_def

lemma row_jane_position:
  "row_position row_jane =
     Inr \<lparr>title = ''PROF'', tenure_code = ''A'', empl_class = ''AA'',
          present_fte = Finite 1, proposed_fte = Finite 1,
          present_salary = Finite 150000, proposed_salary = Finite 155000\<rparr>"
  by (simp add: row_jane_def row_position_def bind_err_def float_eval)

lemma row_stipend_position:
  "row_position row_stipend =
     Inr \<lparr>title = ''ADMIN STIPEND'', tenure_code = [], empl_class = ''BA'',
          present_fte = Finite 0, proposed_fte = Finite 0,
          present_salary = Finite 5000, proposed_salary = Finite 5000\<rparr>"
  by (simp add: row_stipend_def row_position_def bind_err_def float_eval)

lemma rows_processed: "processed_row row_jane" "processed_row row_stipend"
  by (simp_all add: processed_row_def row_jane_def row_stipend_def)

theorem continuation_merge_witness:
  "processed_row row_jane \<and> processed_row row_stipend \<and>
   (case bind_err (process_row row_jane (in_dept ''c42-d6'')) (process_row row_stipend) of
      Inr s \<Rightarrow> map_option faculty (departments s (Some ''c42-d6''))
    | Inl e \<Rightarrow> None) =
   Some [\<lparr>name = ''Smith, Jane'', department = Some ''c42-d6'',
          positions =
            [\<lparr>title = ''PROF'', tenure_code = ''A'', empl_class = ''AA'',
              present_fte = Finite 1, proposed_fte = Finite 1,
              present_salary = Finite 150000, proposed_salary = Finite 155000\<rparr>,
             \<lparr>title = ''ADMIN STIPEND'', tenure_code = [], empl_class = ''BA'',
              present_fte = Finite 0, proposed_fte = Finite 0,
              present_salary = Finite 5000, proposed_salary = Finite 5000\<rparr>]\<rparr>]"
proof -
  note st1 = process_row_step [OF rows_processed(1) row_jane_position]
  note st2 = process_row_step [OF rows_processed(2) row_stipend_position]
  have n1: "row_jane ! 0 = ''Smith, Jane''" by (simp add: row_jane_def)
  have n2: "row_stipend ! 0 = []" by (simp add: row_stipend_def)
  show ?thesis
    using continuation_merge [OF rows_processed, of "in_dept ''c42-d6''"]
    by (simp add: st1 st2 n1 n2 bind_err_def in_dept_def GrayBookHTMLParser_init_def
          rows_processed)
qed

lemmas walker_eval = row_events_def GrayBookHTMLParser_init_def bind_err_def
  handle_starttag_def handle_endtag_def handle_data_def truthy_id_def Let_def
  strip_def is_space_def process_row_def

lemma feed_heading_jane:
  "\<exists>s. feed ([StartTag ''h3'' [(''id'', Some ''c42-d6'')], StartTag ''table'' []] @
             row_events row_jane) GrayBookHTMLParser_init = Inr s \<and>
       departments s (Some ''c42-d6'') =
         Some \<lparr>dept_name = Some ''c42-d6'',
               faculty = [\<lparr>name = ''Smith, Jane'', department = Some ''c42-d6'',
                           positions = [\<lparr>title = ''PROF'', tenure_code = ''A'', empl_class = ''AA'',
          present_fte = Finite 1, proposed_fte = Finite 1,
          present_salary = Finite 150000, proposed_salary = Finite 155000\<rparr>]\<rparr>]\<rparr>"
  by (simp add: walker_eval row_jane_def row_jane_position [unfolded row_jane_def])

lemma feed_no_heading_jane:
  "\<exists>s. feed (StartTag ''table'' [] # row_events row_jane) GrayBookHTMLParser_init = Inr s \<and>
       departments s = Map.empty"
  by (simp add: walker_eval row_jane_def)

theorem rows_before_heading_discarded_witness:
  "current_dept_id GrayBookHTMLParser_init = None \<and>
   list_all (\<lambda>e. \<not> is_heading e) (StartTag ''table'' [] # row_events row_jane) \<and>
   (case feed (StartTag ''table'' [] # row_events row_jane) GrayBookHTMLParser_init of
      Inr s \<Rightarrow> departments s = Map.empty
    | Inl e \<Rightarrow> False) \<and>
   (case feed ([StartTag ''h3'' [(''id'', Some ''c42-d6'')], StartTag ''table'' []] @
               row_events row_jane) GrayBookHTMLParser_init of
      Inr s \<Rightarrow> map_option (map department \<circ> faculty) (departments s (Some ''c42-d6''))
    | Inl e \<Rightarrow> None) = Some [Some ''c42-d6'']"
proof -
  let ?es = "StartTag ''table'' [] # row_events row_jane"
  let ?es' = "[StartTag ''h3'' [(''id'', Some ''c42-d6'')], StartTag ''table'' []] @
               row_events row_jane"
  let ?P = "\<lparr>title = ''PROF'', tenure_code = ''A'', empl_class = ''AA'',
          present_fte = Finite 1, proposed_fte = Finite 1,
          present_salary = Finite 150000, proposed_salary = Finite 155000\<rparr>"
  let ?M = "\<lparr>name = ''Smith, Jane'', department = Some ''c42-d6'', positions = [?P]\<rparr>"
  let ?D = "\<lparr>dept_name = Some ''c42-d6'', faculty = [?M]\<rparr>"
  have h1: "current_dept_id GrayBookHTMLParser_init = None \<and> list_all (\<lambda>e. \<not> is_heading e) ?es"
    by (simp add: GrayBookHTMLParser_init_def row_events_def row_jane_def is_heading_def)
  obtain s where s: "feed ?es' GrayBookHTMLParser_init = Inr s"
    "departments s (Some ''c42-d6'') = Some ?D"
    using feed_heading_jane by blast
  have m: "?M \<in> set (faculty ?D)" by simp
  note inst = rows_before_heading_discarded
    [of GrayBookHTMLParser_init ?es ?es' s "Some ''c42-d6''" ?D ?M]
  from inst h1 obtain t where t: "feed ?es GrayBookHTMLParser_init = Inr t"
    "departments t = departments GrayBookHTMLParser_init" by blast
  from inst s m have "\<exists>i. Some ''c42-d6'' = Some i \<and> i \<noteq> [] \<and> department ?M = Some i"
    by blast
  with h1 s t show ?thesis by (simp add: GrayBookHTMLParser_init_def)
qed


section \<open>Properties: the sign of the salaries\<close>

lemma drop_underscores_set: "drop_underscores prev s = Some t \<Longrightarrow> set t \<subseteq> set s"
proof (induction s arbitrary: prev t)
  case Nil
  then show ?case by (simp split: if_splits)
next
  case (Cons c cs)
  show ?case
  proof (cases "c = CHR ''_''")
    case True
    with Cons.prems have "drop_underscores c cs = Some t" by (simp split: if_splits)
    from Cons.IH [OF this] show ?thesis by auto
  next
    case False
    with Cons.prems obtain u where u: "drop_underscores c cs = Some u" "t = c # u"
      by (auto split: if_splits)
    from Cons.IH [OF u(1)] u(2) show ?thesis by auto
  qed
qed

lemma strip_set: "set (strip s) \<subseteq> set s"
proof -
  have "set (dropWhile is_space (rev (dropWhile is_space s))) \<subseteq> set (rev (dropWhile is_space s))"
    by (auto dest: set_dropWhileD)
  also have "\<dots> \<subseteq> set s" by (auto dest: set_dropWhileD)
  finally show ?thesis by (simp add: strip_def)
qed

lemma sign_split_neg: "sign_split s = (True, b) \<Longrightarrow> CHR ''-'' \<in> set s"
  by (cases s) (auto split: if_splits)

lemma pow10_nonneg: "0 \<le> pow10 e"
  by (simp add: pow10_def)

lemma parse_number_nonneg: "parse_number b = Some q \<Longrightarrow> 0 \<le> q"
  by (auto simp: parse_number_def Let_def pow10_nonneg split: if_splits option.splits)

lemma float_inner_not_negative:
  assumes "CHR ''-'' \<notin> set s" and "float_inner s = Inr v"
  shows "\<not> pf_less v (Finite 0)"
proof -
  obtain neg body where sp: "sign_split (strip s) = (neg, body)" by (cases "sign_split (strip s)")
  have "\<not> neg"
  proof
    assume neg
    with sp have "sign_split (strip s) = (True, body)" by simp
    then have "CHR ''-'' \<in> set (strip s)" by (rule sign_split_neg)
    with strip_set assms(1) show False by blast
  qed
  with sp assms(2) show ?thesis
    by (auto simp: float_inner_def parse_inf_or_nan_def Let_def
          split: option.splits if_splits dest: parse_number_nonneg)
qed

lemma float_py_not_negative:
  assumes "CHR ''-'' \<notin> set s" and "float_py s = Inr v"
  shows "\<not> pf_less v (Finite 0)"
proof (cases "CHR ''_'' \<in> set s")
  case False
  with assms show ?thesis by (simp add: float_py_def float_inner_not_negative)
next
  case True
  with assms(2) obtain t where t: "drop_underscores (CHR 0x00) s = Some t" "float_inner t = Inr v"
    by (auto simp: float_py_def split: option.splits)
  with drop_underscores_set assms(1) have "CHR ''-'' \<notin> set t" by blast
  with t show ?thesis by (simp add: float_inner_not_negative)
qed

lemma parse_salary_not_negative:
  assumes "CHR ''-'' \<notin> set s" and "parse_salary s = Inr v"
  shows "\<not> pf_less v (Finite 0)"
proof -
  let ?c = "strip (replace '','' [] (replace ''$'' [] s))"
  have "set ?c \<subseteq> set s" using strip_set [of "replace '','' [] (replace ''$'' [] s)"]
    by (auto simp: replace_char)
  with assms(1) have "CHR ''-'' \<notin> set ?c" by blast
  from float_py_not_negative [OF this] assms(2) show ?thesis
    by (auto simp: parse_salary_def Let_def split: sum.splits if_splits)
qed

lemma currency_cleaned_body:
  assumes "currency_ok head groups f1 f2"
  shows "replace '','' [] (replace ''$'' [] (currency_body head groups f1 f2)) =
         (head @ concat groups) @ [CHR ''.'', f1, f2]"
proof -
  have "replace '','' [] (replace ''$'' [] (CHR ''$'' # currency_body head groups f1 f2)) =
        replace '','' [] (replace ''$'' [] (currency_body head groups f1 f2))"
    by (simp add: replace_char)
  with currency_cleaned [OF assms] show ?thesis by simp
qed

lemma parse_salary_docx_group:
  assumes "salary_group g"
  shows "\<exists>q. parse_salary_docx g = Inr (Finite q) \<and> 0 \<le> q"
proof -
  from assms obtain head groups f1 f2 where ok: "currency_ok head groups f1 f2"
    and g: "g = currency_body head groups f1 f2"
    unfolding salary_group_def by blast
  from ok have f: "is_digit f1" "is_digit f2" by (simp_all add: currency_ok_def)
  from currency_digits [OF ok] have ds: "head @ concat groups \<noteq> []"
    "list_all is_digit (head @ concat groups)" by blast+
  have "parse_salary_docx g =
        Inr (Finite (of_nat (digits_value (head @ concat groups)) +
                     of_nat (digits_value [f1, f2]) / 100))"
    unfolding g
    by (simp add: parse_salary_docx_def currency_cleaned_body [OF ok]
          float_py_decimal [OF ds f] del: append_assoc)
  then show ?thesis by simp
qed

lemma simple_step_nonneg:
  assumes "salary_group (group6 m)" and "salary_group (group7 m)"
    and "nonneg_state st" and "simple_step m st = Inr st'"
  shows "nonneg_state st'"
proof -
  from parse_salary_docx_group [OF assms(1)] obtain a where
    a: "parse_salary_docx (group6 m) = Inr (Finite a)" "0 \<le> a" by blast
  from parse_salary_docx_group [OF assms(2)] obtain b where
    b: "parse_salary_docx (group7 m) = Inr (Finite b)" "0 \<le> b" by blast
  from a(2) b(2) have le: "pf_le (Finite 0) (Finite a)" "pf_le (Finite 0) (Finite b)"
    by (auto simp: pf_le_def)
  from assms(3,4) a(1) b(1) le show ?thesis
    by (auto simp: simple_step_def bind_err_def Let_def nonneg_state_def nonneg_positions_def
          FacultyMember_docx_def
          split: sum.splits if_splits option.splits)
qed

lemma simple_loop_nonneg:
  assumes "\<forall>m\<in>set ms. salary_group (group6 m) \<and> salary_group (group7 m)"
    and "nonneg_state st" and "simple_loop ms st = Inr st'"
  shows "nonneg_state st'"
  using assms
proof (induction ms arbitrary: st)
  case Nil
  then show ?case by simp
next
  case (Cons m ms)
  from Cons.prems(3) obtain st1 where st1: "simple_step m st = Inr st1"
    "simple_loop ms st1 = Inr st'"
    by (auto simp: bind_err_def split: sum.splits)
  from Cons.prems(1) have "salary_group (group6 m)" "salary_group (group7 m)" by simp_all
  from simple_step_nonneg [OF this Cons.prems(2) st1(1)] have "nonneg_state st1" .
  moreover from Cons.prems(1) have "\<forall>m\<in>set ms. salary_group (group6 m) \<and> salary_group (group7 m)"
    by simp
  ultimately show ?case using st1(2) Cons.IH by blast
qed

lemma parse_faculty_simple_nonneg:
  assumes "parse_faculty_simple entry_finditer text = Inr fs"
    and "\<forall>m\<in>set (entry_finditer text). salary_group (group6 m) \<and> salary_group (group7 m)"
    and "f \<in> set fs" and "p \<in> set (positions_docx f)"
  shows "pf_le (Finite 0) (present_salary p) \<and> pf_le (Finite 0) (proposed_salary p)"
proof -
  let ?init = "\<lparr>faculty_docx = [], current_name = None, current_positions = []\<rparr>"
  from assms(1) obtain st where st: "simple_loop (entry_finditer text) ?init = Inr st"
    and fs: "fs = (case current_name st of
                    None \<Rightarrow> faculty_docx st
                  | Some cn \<Rightarrow>
                      if cn \<noteq> [] \<and> current_positions st \<noteq> []
                      then faculty_docx st @ [FacultyMember_docx cn (current_positions st)]
                      else faculty_docx st)"
    by (auto simp: parse_faculty_simple_def bind_err_def split: sum.splits)
  have "nonneg_state ?init" by (simp add: nonneg_state_def nonneg_positions_def)
  from simple_loop_nonneg [OF assms(2) this st] have inv: "nonneg_state st" .
  from fs assms(3) have "f \<in> set (faculty_docx st) \<or>
      (\<exists>cn. f = FacultyMember_docx cn (current_positions st))"
    by (auto split: option.splits if_splits)
  with inv have "nonneg_positions (positions_docx f)"
    by (auto simp: nonneg_state_def FacultyMember_docx_def)
  with assms(4) show ?thesis by (simp add: nonneg_positions_def)
qed

lemma row_position_fields:
  "row_position row = Inr q \<Longrightarrow>
     parse_salary (row ! 6) = Inr (present_salary q) \<and>
     parse_salary (row ! 7) = Inr (proposed_salary q)"
  by (auto simp: row_position_def bind_err_def split: sum.splits)

text \<open>
  Claim C9, as amended.  Every \<open>Position\<close> that the flattened-text assembler builds has a
  present and a proposed salary that are not negative, its salary groups having the form
  that the entry pattern demands.  The table assembler stores what \<open>parse_salary\<close> returns
  for the seventh and eighth cell of the row: never a negative number when the cell has
  no minus sign, and nothing in the code rejects a cell that has one.
\<close>

theorem salaries_not_negative:
  "(parse_faculty_simple entry_finditer text = Inr fs \<and>
    (\<forall>m\<in>set (entry_finditer text). salary_group (group6 m) \<and> salary_group (group7 m)) \<and>
    f \<in> set fs \<and> p \<in> set (positions_docx f) \<longrightarrow>
      pf_le (Finite 0) (present_salary p) \<and> pf_le (Finite 0) (proposed_salary p)) \<and>
   (row_position row = Inr q \<and> CHR ''-'' \<notin> set (row ! 6) \<and> CHR ''-'' \<notin> set (row ! 7) \<longrightarrow>
      \<not> pf_less (present_salary q) (Finite 0) \<and> \<not> pf_less (proposed_salary q) (Finite 0))"
proof (intro conjI impI)
  assume a: "parse_faculty_simple entry_finditer text = Inr fs \<and>
    (\<forall>m\<in>set (entry_finditer text). salary_group (group6 m) \<and> salary_group (group7 m)) \<and>
    f \<in> set fs \<and> p \<in> set (positions_docx f)"
  then show "pf_le (Finite 0) (present_salary p)" "pf_le (Finite 0) (proposed_salary p)"
    using parse_faculty_simple_nonneg [of entry_finditer "text" fs f p] by blast+
next
  assume a: "row_position row = Inr q \<and> CHR ''-'' \<notin> set (row ! 6) \<and> CHR ''-'' \<notin> set (row ! 7)"
  then show "\<not> pf_less (present_salary q) (Finite 0)" "\<not> pf_less (proposed_salary q) (Finite 0)"
    using row_position_fields [of row q] parse_salary_not_negative by blast+
qed

lemma row_negative_position:
  "row_position row_negative =
     Inr \<lparr>title = ''PROF'', tenure_code = ''A'', empl_class = ''AA'',
          present_fte = Finite 1, proposed_fte = Finite 1,
          present_salary = Finite (- 5), proposed_salary = Finite (- 5)\<rparr>"
  by (simp add: row_negative_def row_position_def bind_err_def float_eval)

theorem negative_salary_counterexample:
  "(case feed ([StartTag ''h3'' [(''id'', Some ''c42-d6'')], StartTag ''table'' []] @
               row_events row_negative) GrayBookHTMLParser_init of
      Inr s \<Rightarrow> map_option faculty (departments s (Some ''c42-d6''))
    | Inl e \<Rightarrow> None) =
     Some [\<lparr>name = ''Smith, Jane'', department = Some ''c42-d6'',
            positions = [\<lparr>title = ''PROF'', tenure_code = ''A'', empl_class = ''AA'',
              present_fte = Finite 1, proposed_fte = Finite 1,
              present_salary = Finite (- 5), proposed_salary = Finite (- 5)\<rparr>]\<rparr>] \<and>
   pf_less (Finite (- 5)) (Finite 0)"
  by (simp add: walker_eval row_negative_def row_negative_position [unfolded row_negative_def])

lemma match_jane_groups: "salary_group (group6 match_jane)" "salary_group (group7 match_jane)"
proof -
  have "currency_ok ''150'' [''000''] (CHR ''0'') (CHR ''0'')"
    "currency_ok ''155'' [''000''] (CHR ''0'') (CHR ''0'')"
    by (simp_all add: currency_ok_def is_digit_def)
  moreover have "group6 match_jane = currency_body ''150'' [''000''] (CHR ''0'') (CHR ''0'')"
    "group7 match_jane = currency_body ''155'' [''000''] (CHR ''0'') (CHR ''0'')"
    by (simp_all add: match_jane_def currency_body_def)
  ultimately show "salary_group (group6 match_jane)" "salary_group (group7 match_jane)"
    unfolding salary_group_def by blast+
qed

lemma parse_match_jane:
  "parse_faculty_simple (\<lambda>t. [match_jane]) [] =
     Inr [FacultyMember_docx ''Smith, Jane''
            [\<lparr>title = ''PROF'', tenure_code = ''A'', empl_class = [],
              present_fte = Finite 1, proposed_fte = Finite 1,
              present_salary = Finite 150000, proposed_salary = Finite 155000\<rparr>]]"
  by (simp add: parse_faculty_simple_def simple_step_def match_jane_def bind_err_def
        parse_salary_docx_def float_eval)

lemma row_jane_no_minus:
  "CHR ''-'' \<notin> set (row_jane ! 6)" "CHR ''-'' \<notin> set (row_jane ! 7)"
  by (simp_all add: row_jane_def)

theorem salaries_not_negative_witness:
  "parse_faculty_simple (\<lambda>t. [match_jane]) [] =
     Inr [FacultyMember_docx ''Smith, Jane''
            [\<lparr>title = ''PROF'', tenure_code = ''A'', empl_class = [],
              present_fte = Finite 1, proposed_fte = Finite 1,
              present_salary = Finite 150000, proposed_salary = Finite 155000\<rparr>]] \<and>
   salary_group (group6 match_jane) \<and> salary_group (group7 match_jane) \<and>
   pf_le (Finite 0) (Finite 150000) \<and> pf_le (Finite 0) (Finite 155000) \<and>
   row_position row_jane =
     Inr \<lparr>title = ''PROF'', tenure_code = ''A'', empl_class = ''AA'',
          present_fte = Finite 1, proposed_fte = Finite 1,
          present_salary = Finite 150000, proposed_salary = Finite 155000\<rparr> \<and>
   CHR ''-'' \<notin> set (row_jane ! 6) \<and> CHR ''-'' \<notin> set (row_jane ! 7) \<and>
   \<not> pf_less (Finite 150000) (Finite 0) \<and> \<not> pf_less (Finite 155000) (Finite 0)"
  using salaries_not_negative
    [of "\<lambda>t. [match_jane]" "[]"
        "[FacultyMember_docx ''Smith, Jane''
            [\<lparr>title = ''PROF'', tenure_code = ''A'', empl_class = [],
              present_fte = Finite 1, proposed_fte = Finite 1,
              present_salary = Finite 150000, proposed_salary = Finite 155000\<rparr>]]"
        "FacultyMember_docx ''Smith, Jane''
            [\<lparr>title = ''PROF'', tenure_code = ''A'', empl_class = [],
              present_fte = Finite 1, proposed_fte = Finite 1,
              present_salary = Finite 150000, proposed_salary = Finite 155000\<rparr>]"
        "\<lparr>title = ''PROF'', tenure_code = ''A'', empl_class = [],
              present_fte = Finite 1, proposed_fte = Finite 1,
              present_salary = Finite 150000, proposed_salary = Finite 155000\<rparr>"
        row_jane
        "\<lparr>title = ''PROF'', tenure_code = ''A'', empl_class = ''AA'',
          present_fte = Finite 1, proposed_fte = Finite 1,
          present_salary = Finite 150000, proposed_salary = Finite 155000\<rparr>"]
  by (simp add: parse_match_jane match_jane_groups row_jane_position FacultyMember_docx_def
        row_jane_no_minus pf_le_def)

end
